theory Spec2Isabelle
  imports Complex_Main "HOL-Library.Sublist"
begin

section \<open>Python strings\<close>

text \<open>
  A Python \<open>str\<close> is modelled as a \<open>string\<close>: a list of characters with code
  points below 256. The operations below are the ones the sources use: \<open>in\<close>,
  \<open>lower\<close>, \<open>strip\<close>, \<open>split\<close>, \<open>join\<close> and \<open>title\<close>.
\<close>

definition str_in :: "string \<Rightarrow> string \<Rightarrow> bool" where
  \<comment> \<open>\<open>needle in hay\<close>: substring test\<close>
  "str_in needle hay = sublist needle hay"

definition any_in :: "string list \<Rightarrow> string \<Rightarrow> bool" where
  \<comment> \<open>\<open>any(w in text for w in ws)\<close>\<close>
  "any_in ws text = list_ex (\<lambda>w. str_in w text) ws"

definition upper_letters :: string where
  \<comment> \<open>the upper-case letters below 256: A to Z, and U+00C0 to U+00DE without U+00D7\<close>
  "upper_letters = ''ABCDEFGHIJKLMNOPQRSTUVWXYZ'' @
     [CHR 0xC0, CHR 0xC1, CHR 0xC2, CHR 0xC3, CHR 0xC4, CHR 0xC5, CHR 0xC6, CHR 0xC7,
      CHR 0xC8, CHR 0xC9, CHR 0xCA, CHR 0xCB, CHR 0xCC, CHR 0xCD, CHR 0xCE, CHR 0xCF,
      CHR 0xD0, CHR 0xD1, CHR 0xD2, CHR 0xD3, CHR 0xD4, CHR 0xD5, CHR 0xD6,
      CHR 0xD8, CHR 0xD9, CHR 0xDA, CHR 0xDB, CHR 0xDC, CHR 0xDD, CHR 0xDE]"

definition lower_letters :: string where
  \<comment> \<open>their lower-case forms, 32 code points above\<close>
  "lower_letters = ''abcdefghijklmnopqrstuvwxyz'' @
     [CHR 0xE0, CHR 0xE1, CHR 0xE2, CHR 0xE3, CHR 0xE4, CHR 0xE5, CHR 0xE6, CHR 0xE7,
      CHR 0xE8, CHR 0xE9, CHR 0xEA, CHR 0xEB, CHR 0xEC, CHR 0xED, CHR 0xEE, CHR 0xEF,
      CHR 0xF0, CHR 0xF1, CHR 0xF2, CHR 0xF3, CHR 0xF4, CHR 0xF5, CHR 0xF6,
      CHR 0xF8, CHR 0xF9, CHR 0xFA, CHR 0xFB, CHR 0xFC, CHR 0xFD, CHR 0xFE]"

definition lower_char :: "char \<Rightarrow> char" where
  "lower_char c = (case map_of (zip upper_letters lower_letters) c of Some l \<Rightarrow> l | None \<Rightarrow> c)"

definition str_lower :: "string \<Rightarrow> string" where
  "str_lower s = map lower_char s"

definition whitespace :: string where
  \<comment> \<open>the code points below 256 on which \<open>str.isspace\<close> holds\<close>
  "whitespace = [CHR 0x09, CHR 0x0A, CHR 0x0B, CHR 0x0C, CHR 0x0D, CHR 0x1C, CHR 0x1D,
                 CHR 0x1E, CHR 0x1F, CHR 0x20, CHR 0x85, CHR 0xA0]"

definition is_space :: "char \<Rightarrow> bool" where
  "is_space c = (c \<in> set whitespace)"

definition str_strip :: "string \<Rightarrow> string" where
  "str_strip s = rev (dropWhile is_space (rev (dropWhile is_space s)))"

fun split_aux :: "string \<Rightarrow> string \<Rightarrow> string list" where
  "split_aux cur [] = (if cur = [] then [] else [cur])"
| "split_aux cur (c # cs) =
     (if is_space c then (if cur = [] then split_aux [] cs else cur # split_aux [] cs)
      else split_aux (cur @ [c]) cs)"

definition str_split :: "string \<Rightarrow> string list" where
  \<comment> \<open>\<open>text.split()\<close>: the maximal runs of non-whitespace\<close>
  "str_split text = split_aux [] text"

fun split_on :: "char \<Rightarrow> string \<Rightarrow> string list" where
  \<comment> \<open>\<open>text.split(sep)\<close> for a one-character separator; empty pieces are kept\<close>
  "split_on sep [] = [[]]"
| "split_on sep (c # cs) =
     (if c = sep then [] # split_on sep cs
      else (case split_on sep cs of [] \<Rightarrow> [[c]] | w # ws \<Rightarrow> (c # w) # ws))"

definition first_piece :: "char \<Rightarrow> string \<Rightarrow> string" where
  \<comment> \<open>\<open>text.split(sep)[0]\<close>\<close>
  "first_piece sep text = (case split_on sep text of [] \<Rightarrow> [] | w # ws \<Rightarrow> w)"

definition last_piece :: "char \<Rightarrow> string \<Rightarrow> string" where
  \<comment> \<open>\<open>text.split(sep)[-1]\<close>\<close>
  "last_piece sep text = (case rev (split_on sep text) of [] \<Rightarrow> [] | w # ws \<Rightarrow> w)"

fun str_join :: "string \<Rightarrow> string list \<Rightarrow> string" where
  \<comment> \<open>\<open>sep.join(ws)\<close>\<close>
  "str_join sep [] = []"
| "str_join sep [w] = w"
| "str_join sep (w # ws) = w @ sep @ str_join sep ws"

definition is_alpha :: "char \<Rightarrow> bool" where
  \<comment> \<open>an ASCII letter\<close>
  "is_alpha c = (c \<in> set (take 26 upper_letters) \<or> c \<in> set (take 26 lower_letters))"

definition upper_char :: "char \<Rightarrow> char" where
  "upper_char c =
     (case map_of (zip (take 26 lower_letters) (take 26 upper_letters)) c of
        Some l \<Rightarrow> l | None \<Rightarrow> c)"

fun title_aux :: "bool \<Rightarrow> string \<Rightarrow> string" where
  "title_aux prev [] = []"
| "title_aux prev (c # cs) =
     (if is_alpha c then (if prev then lower_char c else upper_char c) # title_aux True cs
      else c # title_aux False cs)"

definition str_title :: "string \<Rightarrow> string" where
  \<comment> \<open>\<open>str.title()\<close>, used on the ASCII skill vocabulary only\<close>
  "str_title s = title_aux False s"

section \<open>schema.py\<close>

record Skill =
  name :: string
  years_experience :: "string option"
  is_required :: bool

datatype py_value = VNone | VStr string | VBool bool

record JobAnalysisResponse =
  success :: bool
  company_name :: "string option"
  companyUrl :: "string option"
  job_title :: "string option"
  keywords' :: "string list"
  skills :: "Skill list"
  experience_level :: "string option"
  additional_details :: "string \<rightharpoonup> py_value"
  confidence_scores :: "string \<rightharpoonup> real"

record JobPostingRequest =
  content :: string
  url :: "string option"
  rawHTML :: "string option"
  title :: "string option"
  companyGuess :: "string option"

definition truthy :: "string option \<Rightarrow> bool" where
  \<comment> \<open>Python truth value of an \<open>Optional[str]\<close>: neither \<open>None\<close> nor \<open>""\<close>\<close>
  "truthy x = (case x of None \<Rightarrow> False | Some s \<Rightarrow> s \<noteq> [])"


fun first_some :: "('a \<Rightarrow> 'b option) \<Rightarrow> 'a list \<Rightarrow> 'b option" where
  \<comment> \<open>\<open>for x in xs: ... return y\<close>: the result of the first iteration that returns\<close>
  "first_some f [] = None"
| "first_some f (x # xs) = (case f x of Some y \<Rightarrow> Some y | None \<Rightarrow> first_some f xs)"

section \<open>The libraries the sources call\<close>

text \<open>
  The regular expressions of the sources, named by the place they occur. The engine
  (\<open>re\<close>) is a parameter of the model; the literal patterns are:
  \<^item> \<open>Years_pattern skill\<close>:
    \<^verbatim>\<open>rf'(\d+)\+?\s*years?\s*(?:of\s*)?(?:experience\s*)?(?:with\s*|in\s*)?{re.escape(skill)}'\<close>
  \<^item> \<open>Pipe_LinkedIn\<close>: \<^verbatim>\<open>r'\s*\|\s*LinkedIn.*$'\<close>;
    \<open>Dash_LinkedIn\<close>: \<^verbatim>\<open>r'\s*-\s*LinkedIn.*$'\<close>
  \<^item> \<open>Title_company\<close>: \<^verbatim>\<open>r'-\s*([^|]+?)\s*\|\s*LinkedIn'\<close>
  \<^item> \<open>Company_colon\<close>: \<^verbatim>\<open>r'(?i)company:\s*([^\n\r,]+)'\<close>;
    \<open>Employer_colon\<close>: \<^verbatim>\<open>r'(?i)employer:\s*([^\n\r,]+)'\<close>;
    \<open>Organization_colon\<close>: \<^verbatim>\<open>r'(?i)organization:\s*([^\n\r,]+)'\<close>;
    \<open>Hiring_company_colon\<close>: \<^verbatim>\<open>r'(?i)hiring\s+company:\s*([^\n\r,]+)'\<close>
  \<^item> \<open>Suffix_pattern suffix\<close>: \<^verbatim>\<open>r'\b' + re.escape(suffix) + r'\b\s*$'\<close>
  \<^item> \<open>At_company\<close>: \<^verbatim>\<open>r'(?:at|@)\s+([A-Z][a-zA-Z\s&]+(?:Inc|LLC|Corp|Ltd|Company)?)'\<close>;
    \<open>Company_is_hiring\<close>:
    \<^verbatim>\<open>r'([A-Z][a-zA-Z\s&]+(?:Inc|LLC|Corp|Ltd|Company))\s+is\s+(?:hiring|looking)'\<close>
  \<^item> \<open>Title_position\<close>, \<open>Title_hiring\<close>, \<open>Title_line\<close>: the three \<open>title_patterns\<close>,
    a capitalised phrase ending in Engineer, Developer, Manager, Analyst, Designer, Lead
    or Director, after \<^verbatim>\<open>(?:position|role|job)\s*:?\s*\<close>, after
    \<^verbatim>\<open>(?:hiring|seeking)\s+(?:a|an)?\s*\<close>, or at \<^verbatim>\<open>^\<close>
  \<^item> \<open>Experience_range\<close>, \<open>Experience_single\<close>, \<open>Experience_minimum\<close>,
    \<open>Experience_at_least\<close>: the four \<open>experience_patterns\<close>, in their order
  \<^item> \<open>Level_label\<close>: \<^verbatim>\<open>r'(entry.level|junior|senior|lead|principal|staff)'\<close>;
    \<open>Total_years\<close>: \<^verbatim>\<open>r'(\d+)[\+\s]*(?:years?|yrs?)\s+(?:of\s+)?(?:total\s+)?experience'\<close>
  \<^item> \<open>Salary\<close>: the \<open>salary_pattern\<close>; \<open>Employees_count\<close>, \<open>Size_adjective\<close>: the two
    \<open>size_patterns\<close>.
\<close>

datatype pattern =
    Years_pattern string
  | Pipe_LinkedIn | Dash_LinkedIn | Title_company
  | Company_colon | Employer_colon | Organization_colon | Hiring_company_colon
  | Suffix_pattern string
  | At_company | Company_is_hiring
  | Title_position | Title_hiring | Title_line
  | Experience_range | Experience_single | Experience_minimum | Experience_at_least
  | Level_label | Total_years
  | Salary | Employees_count | Size_adjective

datatype re_flag = IGNORECASE | MULTILINE

datatype exn =
    AttributeError | IndexError | KeyError | ValueError
  | HTTPException nat string
  | ExternalFailure string

record match =
  group0 :: string
  group1 :: string
  group2 :: "exn + string option"
  \<comment> \<open>\<open>m.group(2)\<close>: \<open>IndexError\<close> when the pattern has one group, \<open>None\<close> when
      the second group took no part in the match\<close>

record element =
  get_text :: string
  get_text_strip :: string
  attrs :: "string \<rightharpoonup> string"
  string' :: "string option"

record soup =
  select_one :: "string \<Rightarrow> element option"
  select :: "string \<Rightarrow> element list"
  find_all_ld_json :: "element list"
  find_title :: "element option"
  soup_get_text :: string

datatype json =
    JNull | JBool bool | JNum rat | JStr string | JArr "json list" | JObj "(string \<times> json) list"

text \<open>
  \<open>soup\<close> is what the code observes of a parsed document: \<open>select_one\<close> and
  \<open>select\<close> by CSS selector, \<open>find_all('script', {'type': 'application/ld+json'})\<close>,
  \<open>find('title')\<close> and \<open>get_text()\<close>. An element gives \<open>get_text()\<close>,
  \<open>get_text(strip=True)\<close>, its attributes and \<open>.string\<close>. A JSON object is an
  association list read with \<open>map_of\<close>.
\<close>

record libs =
  re_search :: "pattern \<Rightarrow> string \<Rightarrow> re_flag list \<Rightarrow> match option"
  re_findall :: "pattern \<Rightarrow> string \<Rightarrow> re_flag list \<Rightarrow> string list"
  re_sub :: "pattern \<Rightarrow> string \<Rightarrow> string \<Rightarrow> re_flag list \<Rightarrow> string"
  BeautifulSoup :: "string \<Rightarrow> soup"
  json_loads :: "string \<Rightarrow> json option"
  netloc :: "string \<Rightarrow> exn + string"
  \<comment> \<open>\<open>json_loads\<close> is \<open>None\<close> for \<open>JSONDecodeError\<close>; \<open>netloc u\<close> is
      \<open>urlparse(u).netloc\<close>, or \<open>Inl ValueError\<close> where \<open>urlparse(u)\<close> raises\<close>

definition of_opt :: "string option \<Rightarrow> py_value" where
  "of_opt x = (case x of None \<Rightarrow> VNone | Some s \<Rightarrow> VStr s)"


section \<open>known\_sites/linkedin.py\<close>

definition LinkedIn_can_parse :: "libs \<Rightarrow> string \<Rightarrow> exn + bool" where
  "LinkedIn_can_parse L u =
     (if u = [] then Inr False
      else case netloc L u of
             Inl e \<Rightarrow> Inl e
           | Inr n \<Rightarrow> let domain = str_lower n in Inr (str_in ''linkedin.com'' domain))"

definition LinkedIn_extract_job_title :: "soup \<Rightarrow> string option" where
  "LinkedIn_extract_job_title sp =
     first_some (\<lambda>selector. case select_one sp selector of
                    Some element \<Rightarrow> Some (get_text_strip element) | None \<Rightarrow> None)
       [''h1.top-card-layout__title'',
        ''.job-details-jobs-unified-top-card__job-title h1'',
        ''.jobs-unified-top-card__job-title h1'']"

definition tech_skills :: "string list" where
  "tech_skills =
     [''python'', ''javascript'', ''java'', ''react'', ''angular'', ''vue'', ''node.js'',
      ''sql'', ''postgresql'', ''mysql'', ''mongodb'', ''redis'', ''docker'', ''kubernetes'',
      ''aws'', ''azure'', ''gcp'', ''git'', ''jenkins'', ''ci/cd'', ''rest api'', ''graphql'']"

definition parser_required_words :: "string list" where
  "parser_required_words = [''required'', ''must have'', ''essential'']"

definition skill_of_text :: "libs \<Rightarrow> string \<Rightarrow> string \<Rightarrow> Skill" where
  \<comment> \<open>the body of \<open>for skill in tech_skills: if skill in text: ...\<close>\<close>
  "skill_of_text L text skill =
     (let years_match = re_search L (Years_pattern skill) text [IGNORECASE];
          years_exp = (case years_match of
                         Some m \<Rightarrow> Some (group1 m @ ''+ years'') | None \<Rightarrow> None);
          is_req = any_in parser_required_words text
      in \<lparr>name = str_title skill, years_experience = years_exp, is_required = is_req\<rparr>)"

definition skills_of_text :: "libs \<Rightarrow> string \<Rightarrow> Skill list" where
  "skills_of_text L text =
     map (skill_of_text L text) (filter (\<lambda>skill. str_in skill text) tech_skills)"

definition description_selector :: string where
  "description_selector =
     ''.jobs-box__html-content, .job-details-jobs-unified-top-card__job-description''"

definition LinkedIn_extract_skills :: "libs \<Rightarrow> soup \<Rightarrow> Skill list" where
  "LinkedIn_extract_skills L sp =
     (case select_one sp description_selector of
        None \<Rightarrow> []
      | Some description \<Rightarrow> skills_of_text L (str_lower (get_text description)))"

definition experience_of_text :: "string \<Rightarrow> string option" where
  "experience_of_text text =
     (if any_in [''senior'', ''sr.'', ''lead'', ''principal''] text then Some ''Senior''
      else if any_in [''junior'', ''jr.'', ''entry level'', ''graduate''] text then Some ''Junior''
      else if any_in [''mid-level'', ''intermediate'', ''3-5 years''] text then Some ''Mid-Level''
      else Some ''Not specified'')"

definition LinkedIn_extract_experience_level :: "soup \<Rightarrow> string option" where
  "LinkedIn_extract_experience_level sp = experience_of_text (str_lower (soup_get_text sp))"

definition common_keywords :: "string list" where
  "common_keywords =
     [''remote'', ''hybrid'', ''full-time'', ''part-time'', ''contract'',
      ''startup'', ''enterprise'', ''agile'', ''scrum'', ''team lead'']"

definition LinkedIn_extract_keywords :: "soup \<Rightarrow> string list" where
  "LinkedIn_extract_keywords sp =
     (case select_one sp description_selector of
        None \<Rightarrow> []
      | Some description \<Rightarrow>
          filter (\<lambda>keyword. str_in (str_lower keyword) (str_lower (get_text description)))
            common_keywords)"

definition LinkedIn_extract_location :: "soup \<Rightarrow> string option" where
  "LinkedIn_extract_location sp =
     first_some (\<lambda>selector.
         first_some (\<lambda>element.
             let text = get_text_strip element
             in if any_in [''remote'', ''hybrid''] (str_lower text) \<or> str_in '','' text
                then Some text else None)
           (select sp selector))
       [''.job-details-jobs-unified-top-card__bullet'', ''.jobs-unified-top-card__bullet'']"

definition employment_type_of_text :: "string \<Rightarrow> string option" where
  "employment_type_of_text text =
     (if str_in ''full-time'' text then Some ''Full-time''
      else if str_in ''part-time'' text then Some ''Part-time''
      else if str_in ''contract'' text then Some ''Contract''
      else if str_in ''internship'' text then Some ''Internship''
      else None)"

definition LinkedIn_extract_employment_type :: "soup \<Rightarrow> string option" where
  "LinkedIn_extract_employment_type sp = employment_type_of_text (str_lower (soup_get_text sp))"

definition LinkedIn_extract_seniority_level :: "soup \<Rightarrow> string option" where
  "LinkedIn_extract_seniority_level sp =
     first_some (\<lambda>selector.
         first_some (\<lambda>element.
             if str_in ''seniority level'' (str_lower (get_text element))
             then Some (str_strip (last_piece CHR '':'' (get_text_strip element)))
             else None)
           (select sp selector))
       [''.job-details-jobs-unified-top-card__job-insight'']"

definition LinkedIn_extract_company_size :: "soup \<Rightarrow> string option" where
  "LinkedIn_extract_company_size sp = None"

subsection \<open>The company name: four methods\<close>

definition isinstance_dict :: "json \<Rightarrow> bool" where
  "isinstance_dict v = (case v of JObj kvs \<Rightarrow> True | _ \<Rightarrow> False)"

fun get_nested_keys :: "json \<Rightarrow> string list \<Rightarrow> json" where
  \<comment> \<open>the loop of \<open>_get_nested_value\<close>; \<open>JNull\<close> is Python's \<open>None\<close>\<close>
  "get_nested_keys current [] = current"
| "get_nested_keys current (key # keys) =
     (case current of
        JObj kvs \<Rightarrow> (case map_of kvs key of
                      Some v \<Rightarrow> get_nested_keys v keys | None \<Rightarrow> JNull)
      | _ \<Rightarrow> JNull)"

definition get_nested_value :: "json \<Rightarrow> string \<Rightarrow> json" where
  "get_nested_value data path = get_nested_keys data (split_on CHR ''.'' path)"

definition company_paths :: "string list" where
  "company_paths =
     [''hiringOrganization.name'', ''hiringOrganization.legalName'',
      ''employmentType.hiringOrganization.name'', ''publisher.name'', ''author.name'',
      ''organization.name'', ''company.name'', ''employer.name'']"

definition direct_keys :: "string list" where
  "direct_keys = [''companyName'', ''company'', ''employer'', ''organization'']"

fun direct_key_loop :: "(string \<times> json) list \<Rightarrow> string list \<Rightarrow> exn + string option" where
  \<comment> \<open>\<open>for key in direct_keys\<close>: the first key bound to a string or to an object with a
      \<open>name\<close> returns; \<open>.strip()\<close> of a name that is no string raises\<close>
  "direct_key_loop kvs [] = Inr None"
| "direct_key_loop kvs (key # keys) =
     (case map_of kvs key of
        Some (JStr s) \<Rightarrow> Inr (Some (str_strip s))
      | Some (JObj inner) \<Rightarrow>
          (case map_of inner ''name'' of
             Some (JStr s) \<Rightarrow> Inr (Some (str_strip s))
           | Some _ \<Rightarrow> Inl AttributeError
           | None \<Rightarrow> direct_key_loop kvs keys)
      | _ \<Rightarrow> direct_key_loop kvs keys)"

definition extract_company_from_json_object :: "(string \<times> json) list \<Rightarrow> exn + string option" where
  "extract_company_from_json_object kvs =
     (case first_some (\<lambda>path. case get_nested_value (JObj kvs) path of
                           JStr v \<Rightarrow> if v \<noteq> [] \<and> length (str_strip v) > 0
                                     then Some (str_strip v) else None
                         | _ \<Rightarrow> None) company_paths of
        Some v \<Rightarrow> Inr (Some v)
      | None \<Rightarrow> direct_key_loop kvs direct_keys)"

fun json_items_loop :: "json list \<Rightarrow> exn + string option" where
  \<comment> \<open>\<open>for item in data: if isinstance(item, dict): ...\<close>\<close>
  "json_items_loop [] = Inr None"
| "json_items_loop (item # items) =
     (case item of
        JObj kvs \<Rightarrow>
          (case extract_company_from_json_object kvs of
             Inl e \<Rightarrow> Inl e
           | Inr r \<Rightarrow> if truthy r then Inr r else json_items_loop items)
      | _ \<Rightarrow> json_items_loop items)"

fun json_scripts_loop :: "libs \<Rightarrow> element list \<Rightarrow> exn + string option" where
  \<comment> \<open>\<open>for script in json_scripts\<close>, inside the outer \<open>try\<close>\<close>
  "json_scripts_loop L [] = Inr None"
| "json_scripts_loop L (script # scripts) =
     (case string' script of
        None \<Rightarrow> json_scripts_loop L scripts
      | Some str \<Rightarrow>
          if str = [] then json_scripts_loop L scripts
          else (case json_loads L str of
             None \<Rightarrow> json_scripts_loop L scripts
           | Some (JObj kvs) \<Rightarrow>
               (case extract_company_from_json_object kvs of
                  Inl e \<Rightarrow> Inl e
                | Inr r \<Rightarrow> if truthy r then Inr r else json_scripts_loop L scripts)
           | Some (JArr items) \<Rightarrow>
               (case json_items_loop items of
                  Inl e \<Rightarrow> Inl e
                | Inr r \<Rightarrow> if truthy r then Inr r else json_scripts_loop L scripts)
           | Some _ \<Rightarrow> json_scripts_loop L scripts))"

definition extract_from_json_ld :: "libs \<Rightarrow> soup \<Rightarrow> string option" where
  \<comment> \<open>\<open>except Exception\<close>: print and fall through to \<open>return None\<close>\<close>
  "extract_from_json_ld L sp =
     (case json_scripts_loop L (find_all_ld_json sp) of Inl e \<Rightarrow> None | Inr r \<Rightarrow> r)"


definition company_selectors :: "string list" where
  \<open>company_selectors =
     [''[data-test-id="job-details-header-company-name"]'',
      ''[data-test-id="company-name"]'',
      ''.job-details-jobs-unified-top-card__company-name a'',
      ''.jobs-unified-top-card__company-name a'',
      ''.jobs-unified-top-card__company-name'',
      ''.job-details__company-link'',
      ''.jobs-company-name'',
      ''[data-tracking-control-name="public_jobs_topcard-org-name"]'',
      ''[data-tracking-control-name="public_jobs_topcard_org_name"]'',
      ''.topcard__org-name-redirect'',
      ''.job-details-jobs-unified-top-card__primary-description-container a'',
      ''[class*="company-name"]'',
      ''[class*="employer-name"]'',
      ''[data-test*="company"]'',
      ''[data-testid*="company"]'']\<close>

definition extract_from_css_selectors :: "soup \<Rightarrow> string option" where
  "extract_from_css_selectors sp =
     first_some (\<lambda>selector. case select_one sp selector of
         None \<Rightarrow> None
       | Some element \<Rightarrow>
           let text = get_text_strip element
           in if text \<noteq> [] \<and> length text > 1 \<and> length text < 100 then Some text else None)
       company_selectors"

definition meta_selectors :: "string list" where
  \<open>meta_selectors =
     [''meta[property="og:site_name"]'',
      ''meta[name="author"]'',
      ''meta[property="article:author"]'',
      ''meta[name="company"]'',
      ''meta[property="og:title"]'']\<close>

definition extract_from_meta_tags :: "libs \<Rightarrow> soup \<Rightarrow> string option" where
  "extract_from_meta_tags L sp =
     (case first_some (\<lambda>selector. case select_one sp selector of
               None \<Rightarrow> None
             | Some meta \<Rightarrow>
                 let content = (case attrs meta ''content'' of Some c \<Rightarrow> c | None \<Rightarrow> [])
                 in if content \<noteq> [] \<and> length content > 1 \<and> length content < 100 then
                      let content1 = re_sub L Pipe_LinkedIn [] content [];
                          content2 = re_sub L Dash_LinkedIn [] content1 []
                      in if str_strip content2 \<noteq> [] then Some (str_strip content2) else None
                    else None)
             meta_selectors of
        Some c \<Rightarrow> Some c
      | None \<Rightarrow>
          (case find_title sp of
             None \<Rightarrow> None
           | Some title_element \<Rightarrow>
               let title_text = get_text_strip title_element
               in (case re_search L Title_company title_text [] of
                     None \<Rightarrow> None
                   | Some m \<Rightarrow>
                       let company = str_strip (group1 m)
                       in if company \<noteq> [] \<and> length company > 1 then Some company else None)))"

definition text_patterns :: "pattern list" where
  "text_patterns = [Company_colon, Employer_colon, Organization_colon, Hiring_company_colon]"

definition noise_words :: "string list" where
  "noise_words = [''linkedin'', ''job'', ''career'', ''position'']"

definition extract_from_text_patterns :: "libs \<Rightarrow> soup \<Rightarrow> string option" where
  "extract_from_text_patterns L sp =
     (let page_text = soup_get_text sp
      in first_some (\<lambda>pat.
           first_some (\<lambda>found.
               let m = str_strip found
               in if m \<noteq> [] \<and> length m > 1 \<and> length m < 100 \<and>
                     \<not> any_in noise_words (str_lower m)
                  then Some m else None)
             (re_findall L pat page_text []))
         text_patterns)"

definition LinkedIn_extract_company_name :: "libs \<Rightarrow> soup \<Rightarrow> string option" where
  "LinkedIn_extract_company_name L sp =
     (let m1 = extract_from_json_ld L sp in
      if truthy m1 then m1 else
      let m2 = extract_from_css_selectors sp in
      if truthy m2 then m2 else
      let m3 = extract_from_meta_tags L sp in
      if truthy m3 then m3 else
      let m4 = extract_from_text_patterns L sp in
      if truthy m4 then m4 else None)"

definition LinkedIn_parse :: "libs \<Rightarrow> string \<Rightarrow> string option \<Rightarrow> JobAnalysisResponse" where
  "LinkedIn_parse L html u =
     (let sp = BeautifulSoup L html;
          jt = LinkedIn_extract_job_title sp;
          cn = LinkedIn_extract_company_name L sp;
          sk = LinkedIn_extract_skills L sp;
          el = LinkedIn_extract_experience_level sp;
          kw = LinkedIn_extract_keywords sp;
          details = [''location'' \<mapsto> of_opt (LinkedIn_extract_location sp),
                     ''employment_type'' \<mapsto> of_opt (LinkedIn_extract_employment_type sp),
                     ''seniority_level'' \<mapsto> of_opt (LinkedIn_extract_seniority_level sp),
                     ''company_size'' \<mapsto> of_opt (LinkedIn_extract_company_size sp)]
      in \<lparr>success = True, company_name = cn, companyUrl = None, job_title = jt,
          keywords' = kw, skills = sk, experience_level = el,
          additional_details = details,
          confidence_scores = [''parsing'' \<mapsto> 95 / 100]\<rparr>)"

section \<open>known\_sites/indeed.py\<close>

definition Indeed_can_parse :: "libs \<Rightarrow> string \<Rightarrow> exn + bool" where
  "Indeed_can_parse L u =
     (if u = [] then Inr False
      else case netloc L u of
             Inl e \<Rightarrow> Inl e
           | Inr n \<Rightarrow> let domain = str_lower n in Inr (str_in ''indeed.com'' domain))"

definition Indeed_extract_keywords_from_text :: "string \<Rightarrow> string list" where
  "Indeed_extract_keywords_from_text text =
     filter (\<lambda>keyword. str_in (str_lower keyword) text) common_keywords"

definition text_of :: "soup \<Rightarrow> string \<Rightarrow> string option" where
  \<comment> \<open>\<open>e = soup.select_one(sel); e.get_text(strip=True) if e else None\<close>\<close>
  "text_of sp selector = map_option get_text_strip (select_one sp selector)"

definition Indeed_parse :: "libs \<Rightarrow> string \<Rightarrow> string option \<Rightarrow> JobAnalysisResponse" where
  \<open>Indeed_parse L html u =
     (let sp = BeautifulSoup L html;
          jt = text_of sp ''h1[data-testid="jobsearch-JobInfoHeader-title"]'';
          cn = text_of sp ''[data-testid="inlineHeader-companyName"]'';
          description_text =
            (case select_one sp ''#jobDescriptionText, .jobsearch-jobDescriptionText'' of
               Some d \<Rightarrow> str_lower (get_text d) | None \<Rightarrow> []);
          sk = skills_of_text L description_text;
          el = experience_of_text description_text;
          kw = Indeed_extract_keywords_from_text description_text;
          details = [''location'' \<mapsto> of_opt (text_of sp ''[data-testid="job-location"]''),
                     ''salary'' \<mapsto> of_opt (text_of sp ''[data-testid="attribute_snippet_testid"]''),
                     ''employment_type'' \<mapsto> of_opt (employment_type_of_text description_text)]
      in \<lparr>success = True, company_name = cn, companyUrl = None, job_title = jt,
          keywords' = kw, skills = sk, experience_level = el,
          additional_details = details,
          confidence_scores = [''parsing'' \<mapsto> 95 / 100]\<rparr>)\<close>

section \<open>known\_sites/base\_parsers.py\<close>

datatype parser = LinkedInParser | IndeedParser

fun can_parse :: "libs \<Rightarrow> parser \<Rightarrow> string \<Rightarrow> exn + bool" where
  "can_parse L LinkedInParser u = LinkedIn_can_parse L u"
| "can_parse L IndeedParser u = Indeed_can_parse L u"

fun parse :: "libs \<Rightarrow> parser \<Rightarrow> string \<Rightarrow> string option \<Rightarrow> JobAnalysisResponse" where
  "parse L LinkedInParser html u = LinkedIn_parse L html u"
| "parse L IndeedParser html u = Indeed_parse L html u"

definition parsers :: "parser list" where
  "parsers = [LinkedInParser, IndeedParser]"

fun parser_loop :: "libs \<Rightarrow> string \<Rightarrow> parser list \<Rightarrow> exn + parser option" where
  \<comment> \<open>\<open>for parser in self.parsers: if parser.can_parse(url): return parser\<close>; an
      exception of \<open>can_parse\<close> leaves the loop\<close>
  "parser_loop L u [] = Inr None"
| "parser_loop L u (p # ps) =
     (case can_parse L p u of
        Inl e \<Rightarrow> Inl e
      | Inr b \<Rightarrow> if b then Inr (Some p) else parser_loop L u ps)"

definition get_parser :: "libs \<Rightarrow> string option \<Rightarrow> exn + parser option" where
  "get_parser L u =
     (case u of
        None \<Rightarrow> Inr None
      | Some s \<Rightarrow> if s = [] then Inr None else parser_loop L s parsers)"

definition can_parse_format :: "libs \<Rightarrow> string option \<Rightarrow> exn + bool" where
  "can_parse_format L u =
     (case get_parser L u of Inl e \<Rightarrow> Inl e | Inr r \<Rightarrow> Inr (r \<noteq> None))"


section \<open>The services the sources call\<close>

record search_item =
  link :: "string option"
  item_title :: "string option"
  snippet :: "string option"

record career_page =
  domain :: "string option"
  career_url :: string
  source :: string
  confidence_score :: int
  last_verified :: "string option"

text \<open>
  The models and network services, each a parameter; a call that raises returns \<open>Inl\<close>.
  \<^item> \<open>nlp_ents text\<close>: the \<open>(text, label_)\<close> pairs of \<open>nlp(text).ents\<close>;
  \<^item> \<open>extract_keywords text ngram_range top_n\<close>: \<open>kw_model.extract_keywords\<close>;
  \<^item> \<open>supabase_select name\<close>: the rows of \<open>career_pages\<close> matching the name and
    verified within thirty days; \<open>supabase_upsert\<close>: the upsert of \<open>_cache_result\<close>;
  \<^item> \<open>clearbit_get name\<close>: status code and \<open>domain\<close> field of the Clearbit reply;
  \<^item> \<open>google_get query\<close>: the \<open>items\<close> of a Custom Search reply with a good status;
  \<^item> \<open>cache_get content url\<close>: \<open>get_from_cache\<close> at the key of this content and URL,
    then \<open>JobAnalysisResponse(**cached_result)\<close>: \<open>None\<close> when nothing (or an empty
    dict) comes back, \<open>Some (Inl e)\<close> when the cached dict does not validate.
\<close>

record services =
  nlp_ents :: "string \<Rightarrow> exn + (string \<times> string) list"
  extract_keywords :: "string \<Rightarrow> nat \<times> nat \<Rightarrow> nat \<Rightarrow> exn + (string \<times> real) list"
  supabase_select :: "string \<Rightarrow> exn + career_page list"
  supabase_upsert :: "string \<Rightarrow> string option \<Rightarrow> career_page \<Rightarrow> exn + unit"
  clearbit_get :: "string \<Rightarrow> exn + nat \<times> string option"
  google_get :: "string \<Rightarrow> exn + search_item list"
  cache_get :: "string \<Rightarrow> string \<Rightarrow> (exn + JobAnalysisResponse) option"

section \<open>scanner.py\<close>

definition common_job_titles :: "string list" where
  "common_job_titles =
     [''software'', ''engineer'', ''developer'', ''programmer'', ''architect'',
      ''manager'', ''lead'', ''senior'', ''junior'', ''analyst'', ''scientist'',
      ''designer'', ''consultant'', ''specialist'', ''coordinator'', ''director'']"

definition experience_patterns :: "pattern list" where
  "experience_patterns =
     [Experience_range, Experience_single, Experience_minimum, Experience_at_least]"

definition skill_keywords :: "(string \<times> string list) list" where
  "skill_keywords =
     [(''programming'', [''python'', ''java'', ''javascript'', ''c++'', ''c#'', ''ruby'', ''go'', ''rust'']),
      (''web'', [''html'', ''css'', ''react'', ''angular'', ''vue'', ''node.js'', ''express'']),
      (''database'', [''sql'', ''mysql'', ''postgresql'', ''mongodb'', ''redis'']),
      (''cloud'', [''aws'', ''azure'', ''gcp'', ''docker'', ''kubernetes'']),
      (''tools'', [''git'', ''jenkins'', ''jira'', ''confluence''])]"

definition extract_company_name :: "libs \<Rightarrow> services \<Rightarrow> string \<Rightarrow> exn + string option" where
  "extract_company_name L S text =
     (case nlp_ents S text of
        Inl e \<Rightarrow> Inl e
      | Inr doc \<Rightarrow>
          let first_part = str_join '' '' (take 100 (str_split text))
          in (case nlp_ents S first_part of
                Inl e \<Rightarrow> Inl e
              | Inr ents \<Rightarrow>
                  let companies =
                        map fst (filter (\<lambda>(ent_text, label).
                                    label \<in> set [''ORG''] \<and> length (str_split ent_text) \<le> 4) ents)
                        @ concat (map (\<lambda>pat. re_findall L pat text [IGNORECASE])
                                    [At_company, Company_is_hiring])
                  in (case companies of
                        [] \<Rightarrow> Inr None
                      | c # _ \<Rightarrow> Inr (Some (str_strip c)))))"

definition extract_job_title :: "libs \<Rightarrow> string \<Rightarrow> string option" where
  "extract_job_title L text =
     (case first_some (\<lambda>pat.
               case re_search L pat text [MULTILINE, IGNORECASE] of
                 None \<Rightarrow> None
               | Some m \<Rightarrow>
                   let t = str_strip (group1 m)
                   in if list_ex (\<lambda>keyword. str_in keyword (str_lower t)) common_job_titles
                      then Some t else None)
             [Title_position, Title_hiring, Title_line] of
        Some t \<Rightarrow> Some t
      | None \<Rightarrow>
          let first_line = (if CHR 0x0A \<in> set text then first_piece (CHR 0x0A) text
                            else first_piece CHR ''.'' text);
              words = str_split (str_lower first_line)
          in if list_ex (\<lambda>title_word. title_word \<in> set words) common_job_titles
             then Some (str_strip first_line) else None)"

fun first_index :: "('a \<Rightarrow> bool) \<Rightarrow> 'a list \<Rightarrow> nat option" where
  "first_index P [] = None"
| "first_index P (x # xs) =
     (if P x then Some 0 else map_option Suc (first_index P xs))"

definition get_context_around_skill :: "string \<Rightarrow> string \<Rightarrow> nat \<Rightarrow> string" where
  "get_context_around_skill text skill window =
     (let words = str_split text
      in case first_index (\<lambda>word. str_in (str_lower skill) (str_lower word)) words of
           None \<Rightarrow> []
         | Some idx \<Rightarrow>
             let start = (if idx < window then 0 else idx - window);
                 end' = min (length words) (idx + window)
             in str_join '' '' (take (end' - start) (drop start words)))"

fun experience_loop :: "libs \<Rightarrow> string \<Rightarrow> pattern list \<Rightarrow> exn + string option" where
  "experience_loop L skill_context [] = Inr None"
| "experience_loop L skill_context (pat # pats) =
     (case re_search L pat skill_context [IGNORECASE] of
        None \<Rightarrow> experience_loop L skill_context pats
      | Some m \<Rightarrow>
          (case group2 m of
             Inl e \<Rightarrow> Inl e
           | Inr g2 \<Rightarrow>
               if truthy g2
               then Inr (Some (group1 m @ ''-'' @ (case g2 of Some g \<Rightarrow> g | None \<Rightarrow> []) @ '' years''))
               else Inr (Some (group1 m @ ''+ years''))))"

definition extract_experience_for_skill :: "libs \<Rightarrow> string \<Rightarrow> string \<Rightarrow> exn + string option" where
  "extract_experience_for_skill L text skill =
     experience_loop L (get_context_around_skill text skill 50) experience_patterns"

definition required_indicators :: "string list" where
  "required_indicators = [''required'', ''must have'', ''essential'', ''mandatory'']"

definition preferred_indicators :: "string list" where
  "preferred_indicators = [''preferred'', ''nice to have'', ''bonus'', ''plus'']"

definition is_skill_required :: "string \<Rightarrow> string \<Rightarrow> bool" where
  "is_skill_required text skill =
     (let skill_context = get_context_around_skill text skill 50;
          context_lower = str_lower skill_context
      in list_ex (\<lambda>indicator. str_in indicator context_lower) required_indicators)"

fun skills_loop :: "libs \<Rightarrow> string \<Rightarrow> string list \<Rightarrow> exn + Skill list" where
  \<comment> \<open>\<open>for skill in relevant_skills\<close>\<close>
  "skills_loop L text [] = Inr []"
| "skills_loop L text (skill # rest) =
     (case extract_experience_for_skill L text skill of
        Inl e \<Rightarrow> Inl e
      | Inr experience \<Rightarrow>
          (case skills_loop L text rest of
             Inl e \<Rightarrow> Inl e
           | Inr sks \<Rightarrow>
               Inr (\<lparr>name = skill, years_experience = experience,
                      is_required = is_skill_required text skill\<rparr> # sks)))"

definition extract_skills_and_experience :: "libs \<Rightarrow> services \<Rightarrow> string \<Rightarrow> exn + Skill list" where
  "extract_skills_and_experience L S text =
     (case extract_keywords S text (1, 3) 20 of
        Inl e \<Rightarrow> Inl e
      | Inr kws \<Rightarrow>
          let all_skills = concat (map snd skill_keywords);
              relevant_skills =
                map fst (filter (\<lambda>(keyword, score).
                    list_ex (\<lambda>skill. str_in (str_lower skill) (str_lower keyword)) all_skills) kws)
          in skills_loop L text relevant_skills)"

definition extract_additional_details :: "libs \<Rightarrow> string \<Rightarrow> string option \<Rightarrow> (string \<rightharpoonup> py_value)" where
  "extract_additional_details L text u =
     (let d0 = Map.empty;
          d1 = (case re_findall L Salary text [] of
                  [] \<Rightarrow> d0 | m # _ \<Rightarrow> d0(''salary_range'' \<mapsto> VStr m));
          d2 = d1(''remote_work'' \<mapsto>
                 VBool (any_in [''remote'', ''work from home'', ''distributed'', ''telecommute'']
                          (str_lower text)));
          d3 = (case first_some (\<lambda>pat. re_search L pat text [IGNORECASE])
                       [Employees_count, Size_adjective] of
                  None \<Rightarrow> d2 | Some m \<Rightarrow> d2(''company_size'' \<mapsto> VStr (group0 m)));
          d4 = d3(''education_required'' \<mapsto>
                 VBool (any_in [''bachelor'', ''master'', ''phd'', ''degree'', ''university'', ''college'']
                          (str_lower text)))
      in if truthy u then d4(''source_url'' \<mapsto> of_opt u) else d4)"

record result_dict =
  rd_company_name :: "string option"
  rd_job_title :: "string option"
  rd_skills :: "Skill list"
  rd_keywords :: "string list"

definition calculate_confidence_scores :: "result_dict \<Rightarrow> (string \<rightharpoonup> real)" where
  "calculate_confidence_scores result =
     (let scores = [''company_name'' \<mapsto> (if truthy (rd_company_name result) then 8 / 10 else 0),
                    ''job_title'' \<mapsto> (if truthy (rd_job_title result) then 9 / 10 else 0)];
          num_skills = length (rd_skills result);
          scores1 = scores(''skills'' \<mapsto> min (9 / 10) (real num_skills * (1 / 10)));
          num_keywords = length (rd_keywords result)
      in scores1(''keywords'' \<mapsto> min (9 / 10) (real num_keywords * (5 / 100))))"

definition analysis_failed :: exn where
  \<comment> \<open>\<open>HTTPException(status_code=500, detail=f"Analysis failed: {str(e)}")\<close>\<close>
  "analysis_failed = HTTPException 500 ''Analysis failed''"

definition analyze :: "libs \<Rightarrow> services \<Rightarrow> string \<Rightarrow> string option \<Rightarrow> string option \<Rightarrow>
    string option \<Rightarrow> exn + JobAnalysisResponse" where
  "analyze L S text u title_arg company_guess =
     (let jt0 = extract_job_title L text;
          jt = (if \<not> truthy jt0 \<and> truthy title_arg then title_arg else jt0)
      in case extract_company_name L S text of
           Inl e \<Rightarrow> Inl analysis_failed
         | Inr cn0 \<Rightarrow>
             let cn = (if \<not> truthy cn0 \<and> truthy company_guess then company_guess else cn0)
             in (case extract_skills_and_experience L S text of
                   Inl e \<Rightarrow> Inl analysis_failed
                 | Inr sk \<Rightarrow>
                     (case extract_keywords S text (1, 2) 15 of
                        Inl e \<Rightarrow> Inl analysis_failed
                      | Inr keywords_raw \<Rightarrow>
                          let kw = map fst keywords_raw;
                              el = map_option group1
                                     (first_some (\<lambda>pat. re_search L pat text [IGNORECASE])
                                        [Level_label, Total_years]);
                              d0 = extract_additional_details L text u;
                              d1 = (if truthy title_arg then d0(''page_title'' \<mapsto> of_opt title_arg) else d0);
                              d2 = (if truthy company_guess
                                    then d1(''company_guess'' \<mapsto> of_opt company_guess) else d1);
                              rd = \<lparr>rd_company_name = cn, rd_job_title = jt,
                                    rd_skills = sk, rd_keywords = kw\<rparr>
                          in Inr \<lparr>success = True, company_name = cn, companyUrl = None,
                                 job_title = jt, keywords' = kw, skills = sk,
                                 experience_level = el, additional_details = d2,
                                 confidence_scores = calculate_confidence_scores rd\<rparr>)))"


section \<open>site\_searcher/site\_finder.py\<close>

definition get_from_cache :: "services \<Rightarrow> string \<Rightarrow> exn + career_page option" where
  "get_from_cache S company =
     (case supabase_select S company of
        Inl e \<Rightarrow> Inl e
      | Inr [] \<Rightarrow> Inr None
      | Inr (row # _) \<Rightarrow> Inr (Some row))"

definition clearbit_domain_lookup :: "services \<Rightarrow> string \<Rightarrow> string option" where
  "clearbit_domain_lookup S company =
     (case clearbit_get S company of
        Inl e \<Rightarrow> None
      | Inr (status_code, dmn) \<Rightarrow> if status_code = 200 then dmn else None)"

definition google_search :: "services \<Rightarrow> string \<Rightarrow> search_item list" where
  "google_search S query = (case google_get S query of Inl e \<Rightarrow> [] | Inr items \<Rightarrow> items)"

definition suffixes :: "string list" where
  "suffixes = [''Inc'', ''Inc.'', ''LLC'', ''Corp'', ''Corp.'', ''Corporation'', ''Ltd'', ''Limited'', ''Co'']"

definition clean_company_name :: "libs \<Rightarrow> string \<Rightarrow> string" where
  "clean_company_name L company =
     str_strip (foldl (\<lambda>cleaned suffix. re_sub L (Suffix_pattern suffix) [] cleaned [IGNORECASE])
                  company suffixes)"

definition job_boards :: "string list" where
  "job_boards =
     [''indeed.com'', ''linkedin.com'', ''glassdoor.com'', ''ziprecruiter.com'',
      ''monster.com'', ''careerbuilder.com'', ''simplyhired.com'']"

definition career_keywords :: "string list" where
  "career_keywords = [''career'', ''jobs'', ''hiring'', ''employment'', ''work'', ''join'']"

definition career_patterns :: "string list" where
  "career_patterns = [''/careers'', ''/jobs'', ''/hiring'', ''careers.'', ''jobs.'']"

definition official_indicators :: "string list" where
  "official_indicators = [''careers at'', ''jobs at'', ''work at'', ''join our team'']"

definition py_int :: "real \<Rightarrow> int" where
  \<comment> \<open>\<open>int(x)\<close> truncates towards zero\<close>
  "py_int x = (if x < 0 then \<lceil>x\<rceil> else \<lfloor>x\<rfloor>)"

definition score_career_url :: "libs \<Rightarrow> string \<Rightarrow> string \<Rightarrow> string \<Rightarrow> string \<Rightarrow> bool \<Rightarrow> int" where
  "score_career_url L u title_text snippet_text company is_targeted =
     (if u = [] then 0 else
      let url_lower = str_lower u;
          title_lower = str_lower title_text;
          snippet_lower = str_lower snippet_text;
          company_lower = str_lower (clean_company_name L company)
      in if any_in job_boards url_lower then 0 else
      let has_career_keyword =
            list_ex (\<lambda>keyword. str_in keyword url_lower \<or> str_in keyword title_lower) career_keywords
      in if \<not> has_career_keyword then 0 else
      let base_multiplier = (if is_targeted then 12 / 10 else 1 :: real);
          s1 = (if any_in [''career'', ''jobs'', ''hiring''] url_lower
                then py_int (50 * base_multiplier) else 0);
          s2 = (if str_in company_lower title_lower then s1 + py_int (75 * base_multiplier) else s1);
          s3 = (if any_in career_patterns url_lower then s2 + py_int (40 * base_multiplier) else s2);
          s4 = (if any_in official_indicators title_lower
                then s3 + py_int (60 * base_multiplier) else s3)
      in if is_targeted then s4 + 30 else s4)"

record scored =
  score :: int
  scored_url :: string
  scored_title :: string

definition get_or_empty :: "string option \<Rightarrow> string" where
  \<comment> \<open>\<open>result.get(key, '')\<close>\<close>
  "get_or_empty x = (case x of None \<Rightarrow> [] | Some v \<Rightarrow> v)"

definition score_item :: "libs \<Rightarrow> string \<Rightarrow> bool \<Rightarrow> search_item \<Rightarrow> scored" where
  "score_item L company is_targeted r =
     (let u = get_or_empty (link r); t = get_or_empty (item_title r);
          sn = get_or_empty (snippet r)
      in \<lparr>score = score_career_url L u t sn company is_targeted, scored_url = u, scored_title = t\<rparr>)"

fun max_by_score :: "scored \<Rightarrow> scored list \<Rightarrow> scored" where
  \<comment> \<open>\<open>max(xs, key=lambda x: x['score'])\<close>: the first of the largest\<close>
  "max_by_score best [] = best"
| "max_by_score best (x # xs) = max_by_score (if score best < score x then x else best) xs"

definition find_best_career_url :: "libs \<Rightarrow> search_item list \<Rightarrow> string \<Rightarrow> bool \<Rightarrow> scored option" where
  "find_best_career_url L search_results company is_targeted =
     (let scored_results =
            filter (\<lambda>x. score x > 0) (map (score_item L company is_targeted) search_results)
      in case scored_results of
           [] \<Rightarrow> None
         | x # xs \<Rightarrow>
             let best = max_by_score x xs
             in if score best \<ge> (if is_targeted then 30 else 50) then Some best else None)"

definition targeted_google_search :: "libs \<Rightarrow> services \<Rightarrow> string \<Rightarrow> string \<Rightarrow> career_page option" where
  \<open>targeted_google_search L S company dmn =
     first_some (\<lambda>query.
         let results = google_search S query
         in if results \<noteq> [] then
              (case find_best_career_url L results company True of
                 None \<Rightarrow> None
               | Some best \<Rightarrow>
                   Some \<lparr>domain = Some dmn, career_url = scored_url best,
                         source = ''targeted_google_clearbit'', confidence_score = score best,
                         last_verified = None\<rparr>)
            else None)
       [''site:'' @ dmn @ '' careers'',
        ''site:'' @ dmn @ '' jobs'',
        ''site:'' @ dmn @ '' hiring'',
        ''site:'' @ dmn @ '' "careers" OR "jobs" OR "hiring"'']\<close>

fun broad_loop :: "libs \<Rightarrow> services \<Rightarrow> string \<Rightarrow> string list \<Rightarrow> exn + career_page option" where
  \<comment> \<open>\<open>for query in search_queries\<close> of \<open>_broad_google_search\<close>;
      \<open>urlparse(best_result['url'])\<close> may raise\<close>
  "broad_loop L S company [] = Inr None"
| "broad_loop L S company (query # queries) =
     (let results = google_search S query
      in if results \<noteq> [] then
           (case find_best_career_url L results company False of
              None \<Rightarrow> broad_loop L S company queries
            | Some best \<Rightarrow>
                (case netloc L (scored_url best) of
                   Inl e \<Rightarrow> Inl e
                 | Inr dmn \<Rightarrow>
                     Inr (Some \<lparr>domain = Some dmn, career_url = scored_url best,
                                source = ''broad_google'', confidence_score = score best,
                                last_verified = None\<rparr>)))
         else broad_loop L S company queries)"

definition broad_google_search :: "libs \<Rightarrow> services \<Rightarrow> string \<Rightarrow> exn + career_page option" where
  \<open>broad_google_search L S company =
     broad_loop L S company
       [''"'' @ company @ ''" careers'',
        ''"'' @ company @ ''" jobs'',
        ''"'' @ company @ ''" careers OR jobs OR hiring'']\<close>

definition find_career_page_fresh :: "libs \<Rightarrow> services \<Rightarrow> string \<Rightarrow> exn + career_page option" where
  \<comment> \<open>\<open>find_career_page\<close> from step 2 on\<close>
  "find_career_page_fresh L S company =
     (let company_domain = clearbit_domain_lookup S company;
          career_result0 = (if truthy company_domain
                            then targeted_google_search L S company (get_or_empty company_domain)
                            else None)
      in case (if career_result0 = None then broad_google_search L S company
               else Inr career_result0) of
           Inl e \<Rightarrow> Inl e
         | Inr (Some r) \<Rightarrow>
             (case supabase_upsert S company company_domain r of
                Inl e \<Rightarrow> Inl e
              | Inr _ \<Rightarrow> Inr (Some r))
         | Inr None \<Rightarrow> Inr None)"

definition find_career_page :: "libs \<Rightarrow> services \<Rightarrow> string \<Rightarrow> bool \<Rightarrow> exn + career_page option" where
  "find_career_page L S company force_refresh =
     (if \<not> force_refresh then
        (case get_from_cache S company of
           Inl e \<Rightarrow> Inl e
         | Inr (Some cached_result) \<Rightarrow> Inr (Some cached_result)
         | Inr None \<Rightarrow> find_career_page_fresh L S company)
      else find_career_page_fresh L S company)"

section \<open>app.py\<close>

datatype event = Parser_parse parser | Analyzer_analyze | Finder_find string

text \<open>
  \<open>analyze_job_posting\<close> returns the calls it made to a parser, to the analyzer and to
  the finder, in order, and the response or the \<open>HTTPException\<close> it raised.
\<close>

definition enrich :: "libs \<Rightarrow> services \<Rightarrow> JobAnalysisResponse \<Rightarrow> event list \<times> JobAnalysisResponse" where
  \<comment> \<open>\<open>try: ... except Exception as e: logger.warning(...)\<close>\<close>
  "enrich L S result =
     (if \<not> truthy (companyUrl result) \<and> truthy (company_name result) then
        let company = get_or_empty (company_name result)
        in ([Finder_find company],
            (case find_career_page L S company False of
               Inl e \<Rightarrow> result
             | Inr None \<Rightarrow> result
             | Inr (Some career_page_result) \<Rightarrow>
                 result\<lparr>companyUrl := Some (career_url career_page_result)\<rparr>))
      else ([], result))"

definition backfill :: "JobPostingRequest \<Rightarrow> JobAnalysisResponse \<Rightarrow> JobAnalysisResponse" where
  "backfill req result =
     (let r1 = (if \<not> truthy (job_title result) \<and> truthy (title req)
                then result\<lparr>job_title := title req\<rparr> else result)
      in if \<not> truthy (company_name r1) \<and> truthy (companyGuess req)
         then r1\<lparr>company_name := companyGuess req\<rparr> else r1)"

definition run_extraction :: "libs \<Rightarrow> services \<Rightarrow> JobPostingRequest \<Rightarrow>
    event list \<times> (exn + JobAnalysisResponse)" where
  \<comment> \<open>\<open>parser = parser_factory.get_parser(job_request.url)\<close> and the
      \<open>if parser and job_request.rawHTML: ... else: ...\<close> that follows it; an exception
      of \<open>get_parser\<close> reaches the \<open>except Exception\<close> of the endpoint\<close>
  "run_extraction L S req =
     (case get_parser L (url req) of
        Inl e \<Rightarrow> ([], Inl analysis_failed)
      | Inr parser \<Rightarrow>
          (case parser of
             Some p \<Rightarrow>
               if truthy (rawHTML req)
               then ([Parser_parse p], Inr (parse L p (get_or_empty (rawHTML req)) (url req)))
               else ([Analyzer_analyze], analyze L S (content req) (url req) None None)
           | None \<Rightarrow> ([Analyzer_analyze], analyze L S (content req) (url req) None None)))"

definition analyze_job_posting :: "libs \<Rightarrow> services \<Rightarrow> JobPostingRequest \<Rightarrow>
    event list \<times> (exn + JobAnalysisResponse)" where
  "analyze_job_posting L S req =
     (if str_strip (content req) = [] then
        ([], Inl (HTTPException 400 ''Content cannot be empty''))
      else (case cache_get S (content req) (get_or_empty (url req)) of
        Some (Inr cached_result) \<Rightarrow> ([], Inr cached_result)
      | Some (Inl e) \<Rightarrow> ([], Inl analysis_failed)
      | None \<Rightarrow>
          let (ev, result) = run_extraction L S req
          in (case result of
                Inl e \<Rightarrow> (ev, Inl e)
              | Inr r \<Rightarrow>
                  let (ev2, r2) = enrich L S (backfill req r)
                  in (ev @ ev2, Inr r2))))"

section \<open>Example libraries and services\<close>

text \<open>
  Instances of the parameters, for evaluating the model on concrete inputs.
  \<open>url_netloc\<close> follows \<open>urlsplit\<close>: leading control characters and blanks and every
  tab, carriage return and line feed are dropped, a scheme is split off, the netloc is the
  text between \<open>//\<close> and the next \<open>/\<close>, \<open>?\<close> or \<open>#\<close>, and a netloc with one of
  \<open>[\<close> and \<open>]\<close> but not the other raises \<open>ValueError\<close> (what a matched pair of brackets
  encloses is not checked). \<open>url_hostname\<close> is the \<open>hostname\<close> of such a netloc: the
  text after the last \<open>@\<close>, up to the port, in lower case. \<open>example_libs sp\<close> parses every
  document to \<open>sp\<close> and has a regular-expression engine that finds no match.
\<close>

definition scheme_char :: "char \<Rightarrow> bool" where
  "scheme_char c = (is_alpha c \<or> c \<in> set ''0123456789+-.'')"

definition url_netloc :: "string \<Rightarrow> exn + string" where
  "url_netloc u0 =
     (let u1 = dropWhile (\<lambda>c. (of_char c :: nat) \<le> 32) u0;
          u = filter (\<lambda>c. c \<notin> set [CHR 0x09, CHR 0x0D, CHR 0x0A]) u1;
          pre = takeWhile (\<lambda>c. c \<noteq> CHR '':'') u;
          rest = (if pre \<noteq> [] \<and> length pre < length u \<and> list_all is_alpha (take 1 u) \<and>
                     list_all scheme_char pre
                  then drop (length pre + 1) u else u)
      in if take 2 rest = ''//''
         then let nl = takeWhile (\<lambda>c. c \<noteq> CHR ''/'' \<and> c \<noteq> CHR ''?'' \<and> c \<noteq> CHR ''#'')
                         (drop 2 rest)
              in if (CHR ''['' \<in> set nl \<and> CHR '']'' \<notin> set nl) \<or>
                    (CHR '']'' \<in> set nl \<and> CHR ''['' \<notin> set nl)
                 then Inl ValueError else Inr nl
         else Inr [])"

definition url_hostname :: "string \<Rightarrow> string" where
  "url_hostname nl =
     (let hostinfo = last_piece CHR ''@'' nl
      in str_lower
           (if CHR ''['' \<in> set hostinfo
            then takeWhile (\<lambda>c. c \<noteq> CHR '']'') (drop 1 (dropWhile (\<lambda>c. c \<noteq> CHR ''['') hostinfo))
            else takeWhile (\<lambda>c. c \<noteq> CHR '':'') hostinfo))"

definition empty_soup :: soup where
  "empty_soup = \<lparr>select_one = (\<lambda>sel. None), select = (\<lambda>sel. []), find_all_ld_json = [],
                  find_title = None, soup_get_text = []\<rparr>"

definition example_libs :: "soup \<Rightarrow> libs" where
  "example_libs sp =
     \<lparr>re_search = (\<lambda>pat text flags. None),
      re_findall = (\<lambda>pat text flags. []),
      re_sub = (\<lambda>pat repl text flags. text),
      BeautifulSoup = (\<lambda>html. sp),
      json_loads = (\<lambda>str. None),
      netloc = url_netloc\<rparr>"

definition example_services :: services where
  "example_services =
     \<lparr>nlp_ents = (\<lambda>text. Inr [(''Acme Corp'', ''ORG'')]),
      extract_keywords = (\<lambda>text ngram_range top_n. Inr [(''python'', 7 / 10)]),
      supabase_select = (\<lambda>company. Inr []),
      supabase_upsert = (\<lambda>company dmn r. Inr ()),
      clearbit_get = (\<lambda>company. Inr (404, None)),
      google_get = (\<lambda>query. Inr []),
      cache_get = (\<lambda>text u. None)\<rparr>"


definition linkedin_request :: "string option \<Rightarrow> JobPostingRequest" where
  "linkedin_request html =
     \<lparr>content = ''python lead'', url = Some ''https://www.linkedin.com/jobs/view/1'',
      rawHTML = html, title = None, companyGuess = None\<rparr>"

definition description_text :: "libs \<Rightarrow> parser \<Rightarrow> string \<Rightarrow> string" where
  \<open>description_text L p html =
     (case select_one (BeautifulSoup L html)
             (case p of LinkedInParser \<Rightarrow> description_selector
                      | IndeedParser \<Rightarrow> ''#jobDescriptionText, .jobsearch-jobDescriptionText'') of
        Some d \<Rightarrow> str_lower (get_text d)
      | None \<Rightarrow> [])\<close>

definition description_soup :: "string \<Rightarrow> soup" where
  "description_soup text =
     empty_soup\<lparr>select_one := (\<lambda>sel. if sel = description_selector
                     then Some \<lparr>get_text = text, get_text_strip = str_strip text,
                                attrs = Map.empty, string' = Some text\<rparr>
                     else None),
                soup_get_text := text\<rparr>"

definition far_text :: string where
  "far_text = ''python '' @ concat (replicate 60 ''x '') @ ''required''"

definition description_html :: "string \<Rightarrow> string" where
  \<open>description_html text = ''<div class="jobs-box__html-content">'' @ text @ ''</div>''\<close>

definition linkedin_listing :: search_item where
  "linkedin_listing = \<lparr>link = Some ''https://www.linkedin.com/jobs/careers-at-acme'',
                        item_title = Some ''Careers at Acme'', snippet = None\<rparr>"

definition acme_careers :: search_item where
  "acme_careers = \<lparr>link = Some ''https://www.acme.com/careers'',
                    item_title = Some ''Careers at Acme'', snippet = None\<rparr>"

definition acme_jobs :: search_item where
  "acme_jobs = \<lparr>link = Some ''https://www.acme.com/jobs'',
                 item_title = Some ''Jobs at Acme'', snippet = None\<rparr>"

definition acme_about :: search_item where
  "acme_about = \<lparr>link = Some ''https://www.acme.com/about'',
                  item_title = Some ''About Acme'', snippet = None\<rparr>"

section \<open>Properties\<close>

subsection \<open>Parser selection\<close>

lemma can_parse_netloc:
  assumes "s \<noteq> []" and "netloc L s = Inr n"
  shows "\<exists>b. can_parse L p s = Inr b"
  using assms by (cases p) (simp_all add: LinkedIn_can_parse_def Indeed_can_parse_def Let_def)

lemma parser_loop_netloc:
  assumes "s \<noteq> []" and "netloc L s = Inr n"
  shows "parser_loop L s ps = Inr (find (\<lambda>p. can_parse L p s = Inr True) ps)"
proof (induction ps)
  case Nil
  show ?case by simp
next
  case (Cons p ps)
  obtain b where "can_parse L p s = Inr b"
    using can_parse_netloc [OF assms] by blast
  with Cons show ?case by (cases b) simp_all
qed

lemma get_parser_netloc:
  "get_parser L None = Inr None"
  "get_parser L (Some []) = Inr None"
  "s \<noteq> [] \<Longrightarrow> netloc L s = Inr n \<Longrightarrow>
     get_parser L (Some s) =
       Inr (if str_in ''linkedin.com'' (str_lower n) then Some LinkedInParser
            else if str_in ''indeed.com'' (str_lower n) then Some IndeedParser else None)"
  "s \<noteq> [] \<Longrightarrow> netloc L s = Inl e \<Longrightarrow> get_parser L (Some s) = Inl e"
  by (simp_all add: get_parser_def parsers_def LinkedIn_can_parse_def Indeed_can_parse_def Let_def)

text \<open>
  C9, as the code has it. \<open>get_parser\<close> is a function of the URL alone. It returns
  nothing for an absent or empty URL. For any other URL on which \<open>urlparse\<close> succeeds it
  returns the first of the registered parsers, LinkedIn then Indeed, whose \<open>can_parse\<close>
  holds, and nothing if none does; \<open>can_parse\<close> is the test that the parser's domain is a
  substring of the lower-cased netloc of the URL (user information and port included), not
  of its host alone. For a URL on which \<open>urlparse\<close> raises, \<open>get_parser\<close> and
  \<open>can_parse_format\<close> raise that exception. Whenever \<open>get_parser\<close> returns,
  \<open>can_parse_format\<close> returns whether it returned a parser.
\<close>

theorem get_parser_first_match:
  "get_parser L None = Inr None \<and> get_parser L (Some []) = Inr None \<and>
   (s \<noteq> [] \<longrightarrow> netloc L s = Inr n \<longrightarrow>
      get_parser L (Some s) = Inr (find (\<lambda>p. can_parse L p s = Inr True) parsers) \<and>
      can_parse L LinkedInParser s = Inr (str_in ''linkedin.com'' (str_lower n)) \<and>
      can_parse L IndeedParser s = Inr (str_in ''indeed.com'' (str_lower n)) \<and>
      get_parser L (Some s) =
        Inr (if str_in ''linkedin.com'' (str_lower n) then Some LinkedInParser
             else if str_in ''indeed.com'' (str_lower n) then Some IndeedParser else None)) \<and>
   (s \<noteq> [] \<longrightarrow> netloc L s = Inl e \<longrightarrow>
      get_parser L (Some s) = Inl e \<and> can_parse_format L (Some s) = Inl e) \<and>
   parsers = [LinkedInParser, IndeedParser] \<and>
   (get_parser L u = Inr r \<longrightarrow> can_parse_format L u = Inr (r \<noteq> None)) \<and>
   (get_parser L u = Inl e' \<longrightarrow> can_parse_format L u = Inl e')"
proof -
  have "get_parser L (Some s) = Inr (find (\<lambda>p. can_parse L p s = Inr True) parsers)"
    if "s \<noteq> []" "netloc L s = Inr n"
    using parser_loop_netloc [OF that, of parsers] that by (simp add: get_parser_def)
  then show ?thesis
    using get_parser_netloc(3) [of s L n] get_parser_netloc(4) [of s L e]
    by (simp add: get_parser_netloc(1,2) can_parse_format_def parsers_def
        LinkedIn_can_parse_def Indeed_can_parse_def)
qed

lemma indeed_host_example:
  "url_netloc ''https://uk.Indeed.com:443/viewjob?jk=1'' = Inr ''uk.Indeed.com:443''"
  "str_in ''indeed.com'' (str_lower ''uk.Indeed.com:443'')"
  "\<not> str_in ''linkedin.com'' (str_lower ''uk.Indeed.com:443'')"
  by code_simp+

lemma userinfo_example:
  "url_netloc ''https://linkedin.com@evil.example/jobs/1'' = Inr ''linkedin.com@evil.example''"
  "str_in ''linkedin.com'' (str_lower ''linkedin.com@evil.example'')"
  "url_hostname ''linkedin.com@evil.example'' = ''evil.example''"
  by code_simp+

theorem get_parser_first_match_witness:
  "netloc (example_libs empty_soup) ''https://uk.Indeed.com:443/viewjob?jk=1''
     = Inr ''uk.Indeed.com:443'' \<and>
   get_parser (example_libs empty_soup) (Some ''https://uk.Indeed.com:443/viewjob?jk=1'')
     = Inr (Some IndeedParser) \<and>
   can_parse_format (example_libs empty_soup) (Some ''https://uk.Indeed.com:443/viewjob?jk=1'')
     = Inr True \<and>
   netloc (example_libs empty_soup) ''https://linkedin.com@evil.example/jobs/1''
     = Inr ''linkedin.com@evil.example'' \<and>
   url_hostname ''linkedin.com@evil.example'' = ''evil.example'' \<and>
   get_parser (example_libs empty_soup) (Some ''https://linkedin.com@evil.example/jobs/1'')
     = Inr (Some LinkedInParser)"
proof -
  let ?L = "example_libs empty_soup"
  let ?s = "''https://uk.Indeed.com:443/viewjob?jk=1''"
  let ?t = "''https://linkedin.com@evil.example/jobs/1''"
  have nl: "netloc ?L ?s = Inr ''uk.Indeed.com:443''"
    using indeed_host_example(1) by (simp add: example_libs_def)
  have nt: "netloc ?L ?t = Inr ''linkedin.com@evil.example''"
    using userinfo_example(1) by (simp add: example_libs_def)
  note t1 = get_parser_first_match [of ?L ?s "''uk.Indeed.com:443''" ValueError "Some ?s"
      "Some IndeedParser" ValueError]
  note t2 = get_parser_first_match [of ?L ?t "''linkedin.com@evil.example''" ValueError "Some ?t"
      "Some LinkedInParser" ValueError]
  have ns: "?s \<noteq> []" and nt': "?t \<noteq> []" by simp_all
  from t1 ns nl
  have "get_parser ?L (Some ?s) =
          Inr (if str_in ''linkedin.com'' (str_lower ''uk.Indeed.com:443'') then Some LinkedInParser
               else if str_in ''indeed.com'' (str_lower ''uk.Indeed.com:443'')
                    then Some IndeedParser else None)"
    by blast
  with indeed_host_example(2,3)
  have g1: "get_parser ?L (Some ?s) = Inr (Some IndeedParser)" by simp
  with t1 have "can_parse_format ?L (Some ?s) = Inr (Some IndeedParser \<noteq> None)" by blast
  then have c1: "can_parse_format ?L (Some ?s) = Inr True" by simp
  from t2 nt' nt
  have "get_parser ?L (Some ?t) =
          Inr (if str_in ''linkedin.com'' (str_lower ''linkedin.com@evil.example'')
               then Some LinkedInParser
               else if str_in ''indeed.com'' (str_lower ''linkedin.com@evil.example'')
                    then Some IndeedParser else None)"
    by blast
  with userinfo_example(2)
  have g2: "get_parser ?L (Some ?t) = Inr (Some LinkedInParser)" by simp
  from nl g1 c1 nt g2 userinfo_example(3) show ?thesis by blast
qed

text \<open>
  The claim C9 as stated fails where \<open>urlparse\<close> raises: on
  \<^verbatim>\<open>http://[linkedin.com/x\<close> the netloc has an opening bracket and no closing one,
  \<open>urlparse\<close> raises \<open>ValueError\<close>, and \<open>get_parser\<close> and \<open>can_parse_format\<close> raise
  it too: neither a parser nor nothing is returned.
\<close>

lemma bracket_example: "url_netloc ''http://[linkedin.com/x'' = Inl ValueError"
  by code_simp

theorem get_parser_raises:
  "get_parser (example_libs empty_soup) (Some ''http://[linkedin.com/x'') = Inl ValueError \<and>
   can_parse_format (example_libs empty_soup) (Some ''http://[linkedin.com/x'') = Inl ValueError"
proof -
  have "netloc (example_libs empty_soup) ''http://[linkedin.com/x'' = Inl ValueError"
    using bracket_example by (simp add: example_libs_def)
  then show ?thesis
    using get_parser_netloc(4) [of "''http://[linkedin.com/x''" "example_libs empty_soup" ValueError]
    by (simp add: can_parse_format_def)
qed

subsection \<open>Confidence scores\<close>

text \<open>
  C3. Whatever the markup and the URL, the confidence scores of a result of the LinkedIn
  or the Indeed parser bind the key \<open>parsing\<close> to 0.95, and bind no other key.
\<close>

theorem parser_confidence_parsing:
  "confidence_scores (parse L p html u) ''parsing'' = Some (95 / 100) \<and>
   dom (confidence_scores (parse L p html u)) = {''parsing''}"
  by (cases p) (simp_all add: LinkedIn_parse_def Indeed_parse_def Let_def)

lemma parse_confidence_scores:
  "confidence_scores (parse L p html u) = [''parsing'' \<mapsto> 95 / 100]"
  by (cases p) (simp_all add: LinkedIn_parse_def Indeed_parse_def Let_def)

lemma analyze_fields:
  assumes "analyze L S text u t g = Inr r"
  shows "confidence_scores r =
           calculate_confidence_scores \<lparr>rd_company_name = company_name r, rd_job_title = job_title r,
              rd_skills = skills r, rd_keywords = keywords' r\<rparr>"
  using assms
  by (auto simp: analyze_def Let_def split: sum.splits)

lemma calculate_confidence_scores_values:
  "calculate_confidence_scores rd =
     [''company_name'' \<mapsto> (if truthy (rd_company_name rd) then 8 / 10 else 0),
      ''job_title'' \<mapsto> (if truthy (rd_job_title rd) then 9 / 10 else 0),
      ''skills'' \<mapsto> min (9 / 10) (1 / 10 * real (length (rd_skills rd))),
      ''keywords'' \<mapsto> min (9 / 10) (5 / 100 * real (length (rd_keywords rd)))]"
  by (simp add: calculate_confidence_scores_def Let_def mult.commute)

text \<open>
  C4. In every output of the Generic Analyzer the confidence of \<open>company_name\<close> is 0.8 if
  a company name is present (neither \<open>None\<close> nor empty) and 0.0 otherwise, that of
  \<open>job_title\<close> is 0.9 if a title is present and 0.0 otherwise, that of \<open>skills\<close> is
  \<open>min(0.9, 0.1 * len(skills))\<close> and that of \<open>keywords\<close> is
  \<open>min(0.9, 0.05 * len(keywords))\<close>, for every number of skills and keywords; the
  mapping has no other key. Python's floats are read as real numbers.
\<close>

theorem analyzer_confidence_scores:
  assumes "analyze L S text u t g = Inr r"
  shows "confidence_scores r ''company_name'' = Some (if truthy (company_name r) then 8 / 10 else 0) \<and>
         confidence_scores r ''job_title'' = Some (if truthy (job_title r) then 9 / 10 else 0) \<and>
         confidence_scores r ''skills'' = Some (min (9 / 10) (1 / 10 * real (length (skills r)))) \<and>
         confidence_scores r ''keywords'' = Some (min (9 / 10) (5 / 100 * real (length (keywords' r)))) \<and>
         dom (confidence_scores r) = {''company_name'', ''job_title'', ''skills'', ''keywords''}"
  unfolding analyze_fields [OF assms] calculate_confidence_scores_values
  by auto

lemma example_job_title:
  "extract_job_title (example_libs empty_soup) ''python lead'' = Some ''python lead''"
  by code_simp

lemma example_company:
  "extract_company_name (example_libs empty_soup) example_services ''python lead''
     = Inr (Some ''Acme Corp'')"
  by code_simp

lemma example_skills:
  "extract_skills_and_experience (example_libs empty_soup) example_services ''python lead''
     = Inr [\<lparr>name = ''python'', years_experience = None, is_required = False\<rparr>]"
  by code_simp

lemma example_keywords:
  "extract_keywords example_services text ngram_range top_n = Inr [(''python'', 7 / 10)]"
  by (simp add: example_services_def)

lemma analyze_example:
  "\<not> isl (analyze (example_libs empty_soup) example_services ''python lead'' u None None) \<and>
   company_name (projr (analyze (example_libs empty_soup) example_services
      ''python lead'' u None None)) = Some ''Acme Corp'' \<and>
   job_title (projr (analyze (example_libs empty_soup) example_services
      ''python lead'' u None None)) = Some ''python lead'' \<and>
   length (skills (projr (analyze (example_libs empty_soup) example_services
      ''python lead'' u None None))) = 1 \<and>
   keywords' (projr (analyze (example_libs empty_soup) example_services
      ''python lead'' u None None)) = [''python'']"
  by (simp add: analyze_def example_job_title example_company example_skills example_keywords
      Let_def truthy_def)

theorem analyzer_confidence_scores_witness:
  "analyze (example_libs empty_soup) example_services ''python lead'' None None None
     = Inr (projr (analyze (example_libs empty_soup) example_services
              ''python lead'' None None None)) \<and>
   confidence_scores (projr (analyze (example_libs empty_soup) example_services
      ''python lead'' None None None)) ''company_name'' = Some (8 / 10) \<and>
   confidence_scores (projr (analyze (example_libs empty_soup) example_services
      ''python lead'' None None None)) ''job_title'' = Some (9 / 10) \<and>
   confidence_scores (projr (analyze (example_libs empty_soup) example_services
      ''python lead'' None None None)) ''skills'' = Some (1 / 10) \<and>
   confidence_scores (projr (analyze (example_libs empty_soup) example_services
      ''python lead'' None None None)) ''keywords'' = Some (5 / 100)"
proof -
  let ?a = "analyze (example_libs empty_soup) example_services ''python lead'' None None None"
  note e = analyze_example [of None]
  have h: "?a = Inr (projr ?a)" using e by simp
  from analyzer_confidence_scores [OF h] e h show ?thesis
    by (simp add: truthy_def)
qed

text \<open>
  C2, as the code has it. Every confidence score of a Generic Analyzer output lies in
  the closed interval from 0.0 to 0.9. The confidence scores of a parser output hold the
  one value 0.95, which is above 0.9 and below 1.0. So no confidence reaches 1.0 on
  either path.
\<close>

theorem confidence_scores_bounds:
  "(analyze L S text u t g = Inr r \<longrightarrow> confidence_scores r k = Some v \<longrightarrow> 0 \<le> v \<and> v \<le> 9 / 10) \<and>
   (confidence_scores (parse L p html u') k = Some v' \<longrightarrow> v' = 95 / 100 \<and> v' < 1)"
proof -
  have "0 \<le> v \<and> v \<le> 9 / 10"
    if a: "analyze L S text u t g = Inr r" and k: "confidence_scores r k = Some v"
    using k unfolding analyze_fields [OF a] calculate_confidence_scores_values
    by (auto split: if_splits)
  moreover have "v' = 95 / 100 \<and> v' < 1" if "confidence_scores (parse L p html u') k = Some v'"
    using that unfolding parse_confidence_scores by (auto split: if_splits)
  ultimately show ?thesis by blast
qed

theorem confidence_scores_bounds_witness:
  "analyze (example_libs empty_soup) example_services ''python lead'' None None None
     = Inr (projr (analyze (example_libs empty_soup) example_services
              ''python lead'' None None None)) \<and>
   confidence_scores (projr (analyze (example_libs empty_soup) example_services
      ''python lead'' None None None)) ''job_title'' = Some (9 / 10) \<and>
   (0::real) \<le> 9 / 10 \<and> (9 / 10 :: real) \<le> 9 / 10 \<and>
   confidence_scores (parse (example_libs empty_soup) IndeedParser [] None) ''parsing''
     = Some (95 / 100) \<and>
   (95 / 100 :: real) < 1"
proof -
  let ?a = "analyze (example_libs empty_soup) example_services ''python lead'' None None None"
  note e = analyze_example [of None]
  have h: "?a = Inr (projr ?a)" using e by simp
  have j: "confidence_scores (projr ?a) ''job_title'' = Some (9 / 10)"
    using analyze_fields [OF h] e
    by (simp add: calculate_confidence_scores_values truthy_def)
  have p: "confidence_scores (parse (example_libs empty_soup) IndeedParser [] None) ''parsing''
             = Some (95 / 100)"
    using parse_confidence_scores [of "example_libs empty_soup" IndeedParser "[]" None] by simp
  from confidence_scores_bounds [of "example_libs empty_soup" example_services
      "''python lead''" None None None "projr ?a" "''job_title''" "9 / 10"
      IndeedParser "[]" None "95 / 100"] h j p
  show ?thesis by simp
qed

text \<open>
  The claim C2 as stated fails on the parser path: the LinkedIn parser's result for an
  empty document binds \<open>parsing\<close> to 0.95, which is not at most 0.9.
\<close>

theorem parser_confidence_above_bound:
  "confidence_scores (parse (example_libs empty_soup) LinkedInParser [] None) ''parsing''
     = Some (95 / 100) \<and> \<not> ((95 / 100 :: real) \<le> 9 / 10)"
  using parse_confidence_scores [of "example_libs empty_soup" LinkedInParser "[]" None] by simp


lemma skills_of_text_required:
  "s \<in> set (skills_of_text L text) \<Longrightarrow> is_required s = any_in parser_required_words text"
  by (auto simp: skills_of_text_def skill_of_text_def Let_def)

lemma parse_skills:
  "skills (parse L p html u) =
     (if p = LinkedInParser \<and> select_one (BeautifulSoup L html) description_selector = None then []
      else skills_of_text L (description_text L p html))"
  by (cases p) (auto simp: LinkedIn_parse_def Indeed_parse_def Let_def description_text_def
      LinkedIn_extract_skills_def split: option.splits)

subsection \<open>Skills and the required flag\<close>

text \<open>
  C10. In every result of the LinkedIn or the Indeed parser all skills carry the same
  \<open>is_required\<close> flag: it is true exactly when one of \<open>required\<close>, \<open>must have\<close>,
  \<open>essential\<close> occurs somewhere in the lower-cased description text, whichever the
  skill and wherever the phrase stands.
\<close>

theorem parser_skills_same_flag:
  "(\<forall>s \<in> set (skills (parse L p html u)).
      is_required s = any_in [''required'', ''must have'', ''essential''] (description_text L p html)) \<and>
   (\<forall>s \<in> set (skills (parse L p html u)). \<forall>t \<in> set (skills (parse L p html u)).
      is_required s = is_required t)"
  using skills_of_text_required [of _ L "description_text L p html"]
  by (auto simp: parse_skills parser_required_words_def split: if_splits)

lemma skills_loop_required:
  "skills_loop L text names = Inr sks \<Longrightarrow>
   \<forall>s \<in> set sks. is_required s = is_skill_required text (name s)"
  by (induction names arbitrary: sks) (auto split: sum.splits)

lemma analyze_skills:
  "analyze L S text u t g = Inr r \<Longrightarrow> extract_skills_and_experience L S text = Inr (skills r)"
  by (auto simp: analyze_def Let_def split: sum.splits)

lemma is_skill_required_window:
  "is_skill_required text skill =
     any_in required_indicators (str_lower (get_context_around_skill text skill 50))"
  by (simp add: is_skill_required_def any_in_def Let_def)

lemma str_join_Cons: "ys \<noteq> [] \<Longrightarrow> str_join sep (w # ys) = w @ sep @ str_join sep ys"
  by (cases ys) simp_all

lemma str_join_append:
  "str_join sep (xs @ ys) =
     (if xs = [] then str_join sep ys else if ys = [] then str_join sep xs
      else str_join sep xs @ sep @ str_join sep ys)"
  by (induction xs) (auto simp: str_join_Cons)

lemma sublist_str_join:
  assumes "sublist ws xs" shows "sublist (str_join sep ws) (str_join sep xs)"
proof -
  from assms obtain ps ss where xs: "xs = ps @ ws @ ss" by (auto simp: sublist_def)
  show ?thesis
  proof (cases "ws = []")
    case True then show ?thesis by simp
  next
    case False
    have "\<exists>a b. str_join sep (ps @ ws @ ss) = a @ str_join sep ws @ b"
      using False by (simp add: str_join_append) (metis append.assoc append_Nil append_Nil2)
    then show ?thesis unfolding xs sublist_def by blast
  qed
qed

lemma window_words:
  "\<exists>ws. get_context_around_skill text skill window = str_join '' '' ws \<and>
        sublist ws (str_split text) \<and> length ws \<le> 2 * window"
proof (cases "first_index (\<lambda>word. str_in (str_lower skill) (str_lower word)) (str_split text)")
  case None
  then have "get_context_around_skill text skill window = str_join '' '' []"
    by (simp add: get_context_around_skill_def)
  then show ?thesis by (metis list.size(3) sublist_Nil_left zero_le)
next
  case (Some idx)
  let ?words = "str_split text"
  let ?start = "if idx < window then 0 else idx - window"
  let ?end = "min (length ?words) (idx + window)"
  let ?ws = "take (?end - ?start) (drop ?start ?words)"
  have c: "get_context_around_skill text skill window = str_join '' '' ?ws"
    using Some by (simp add: get_context_around_skill_def Let_def)
  have "?words = take ?start ?words @ ?ws @ drop (?end - ?start) (drop ?start ?words)"
    by (simp only: append_take_drop_id)
  then have s: "sublist ?ws ?words" unfolding sublist_def by blast
  have l: "length ?ws \<le> 2 * window" by auto
  from c s l show ?thesis by blast
qed

lemma no_indicator_in_window:
  assumes "\<not> any_in required_indicators (str_lower (str_join '' '' (str_split text)))"
  shows "\<not> is_skill_required text skill"
proof -
  obtain ws where c: "get_context_around_skill text skill 50 = str_join '' '' ws"
    and s: "sublist ws (str_split text)"
    using window_words [of "text" skill 50] by blast
  have sub: "sublist (str_lower (get_context_around_skill text skill 50))
                     (str_lower (str_join '' '' (str_split text)))"
    unfolding c str_lower_def using sublist_str_join [OF s] by (rule map_mono_sublist)
  have "any_in required_indicators (str_lower (str_join '' '' (str_split text)))"
    if "any_in required_indicators (str_lower (get_context_around_skill text skill 50))"
    using that sub unfolding any_in_def str_in_def list_ex_iff
    by (meson sublist_order.order_trans)
  with assms show ?thesis by (auto simp: is_skill_required_window)
qed

lemma example_description:
  "select_one (BeautifulSoup (example_libs (description_soup t)) html) description_selector
     = Some \<lparr>get_text = t, get_text_strip = str_strip t, attrs = Map.empty, string' = Some t\<rparr>"
  by (simp add: example_libs_def description_soup_def empty_soup_def)

lemma example_description_text:
  "description_text (example_libs (description_soup t)) LinkedInParser html = str_lower t"
  by (simp add: description_text_def example_description)

lemma example_parse_skills:
  "skills (parse (example_libs (description_soup t)) LinkedInParser html u)
     = skills_of_text (example_libs (description_soup t)) (str_lower t)"
  by (simp add: parse_skills example_description example_description_text del: parse.simps)

lemma example_required_skills:
  "skills_of_text (example_libs (description_soup ''Python and SQL required''))
      (str_lower ''Python and SQL required'')
     = [\<lparr>name = ''Python'', years_experience = None, is_required = True\<rparr>,
        \<lparr>name = ''Sql'', years_experience = None, is_required = True\<rparr>]"
  by code_simp

lemma example_required_word:
  "any_in [''required'', ''must have'', ''essential''] (str_lower ''Python and SQL required'')"
  by code_simp

theorem parser_skills_same_flag_witness:
  "skills (parse (example_libs (description_soup ''Python and SQL required'')) LinkedInParser
      (description_html ''Python and SQL required'') None) \<noteq> [] \<and>
   any_in [''required'', ''must have'', ''essential'']
      (description_text (example_libs (description_soup ''Python and SQL required'')) LinkedInParser
         (description_html ''Python and SQL required'')) \<and>
   list_all is_required
     (skills (parse (example_libs (description_soup ''Python and SQL required'')) LinkedInParser
        (description_html ''Python and SQL required'') None))"
proof -
  let ?L = "example_libs (description_soup ''Python and SQL required'')"
  let ?h = "description_html ''Python and SQL required''"
  have ne: "skills (parse ?L LinkedInParser ?h None) \<noteq> []"
    unfolding example_parse_skills example_required_skills by simp
  have w: "any_in [''required'', ''must have'', ''essential''] (description_text ?L LinkedInParser ?h)"
    unfolding example_description_text by (rule example_required_word)
  from parser_skills_same_flag [of ?L LinkedInParser ?h None] w
  have "\<forall>s \<in> set (skills (parse ?L LinkedInParser ?h None)). is_required s" by blast
  with ne w show ?thesis by (simp add: list_all_iff del: parse.simps)
qed

lemma far_skills:
  "skills_of_text (example_libs (description_soup far_text)) (str_lower far_text)
     = [\<lparr>name = ''Python'', years_experience = None, is_required = True\<rparr>]"
  by code_simp

lemma far_window:
  "\<not> any_in required_indicators (str_lower (get_context_around_skill (str_lower far_text) ''python'' 50))"
  by code_simp

text \<open>
  The claim C6 as stated fails on the parser path. The description is \<open>python\<close>, sixty
  words \<open>x\<close>, then \<open>required\<close>: the parser marks Python required, while the fifty
  words around the mention of \<open>python\<close> hold no required-indicator.
\<close>

theorem parser_required_outside_window:
  "skills (parse (example_libs (description_soup far_text)) LinkedInParser (description_html far_text) None)
     = [\<lparr>name = ''Python'', years_experience = None, is_required = True\<rparr>] \<and>
   description_text (example_libs (description_soup far_text)) LinkedInParser (description_html far_text)
     = str_lower far_text \<and>
   \<not> any_in required_indicators
       (str_lower (get_context_around_skill (str_lower far_text) ''python'' 50))"
  unfolding example_parse_skills example_description_text far_skills using far_window by simp

lemma first_index_Some:
  "first_index P xs = Some i \<longleftrightarrow> i < length xs \<and> P (xs ! i) \<and> (\<forall>j<i. \<not> P (xs ! j))"
proof (induction xs arbitrary: i)
  case Nil
  show ?case by simp
next
  case (Cons x xs)
  show ?case
  proof (cases "P x")
    case True
    then show ?thesis by (cases i) auto
  next
    case False
    show ?thesis
    proof (cases i)
      case 0
      with False show ?thesis by simp
    next
      case (Suc k)
      have "(\<forall>j<Suc k. \<not> P ((x # xs) ! j)) \<longleftrightarrow> (\<forall>j<k. \<not> P (xs ! j))"
        using False by (auto simp: less_Suc_eq_0_disj)
      with False Suc Cons.IH [of k] show ?thesis by auto
    qed
  qed
qed

lemma first_index_None: "first_index P xs = None \<longleftrightarrow> (\<forall>x \<in> set xs. \<not> P x)"
  by (induction xs) auto

lemma take_drop_nth: "e \<le> length xs \<Longrightarrow> take (e - s) (drop s xs) = map (nth xs) [s..<e]"
  by (rule nth_equalityI) (auto simp: add.commute)

lemma context_no_mention:
  assumes "\<forall>w \<in> set (str_split text). \<not> str_in (str_lower skill) (str_lower w)"
  shows "get_context_around_skill text skill window = []"
  using assms first_index_None [of "\<lambda>word. str_in (str_lower skill) (str_lower word)" "str_split text"]
  by (simp add: get_context_around_skill_def)

lemma context_first_mention:
  assumes "i < length (str_split text)"
    and "str_in (str_lower skill) (str_lower (str_split text ! i))"
    and "\<forall>j<i. \<not> str_in (str_lower skill) (str_lower (str_split text ! j))"
  shows "get_context_around_skill text skill window =
           str_join '' '' (map (nth (str_split text))
              [i - window ..< min (length (str_split text)) (i + window)])"
proof -
  have "first_index (\<lambda>word. str_in (str_lower skill) (str_lower word)) (str_split text) = Some i"
    using assms by (simp add: first_index_Some)
  then show ?thesis
    by (simp add: get_context_around_skill_def Let_def take_drop_nth)
qed

lemma no_indicator_in_empty: "\<not> any_in required_indicators (str_lower [])"
  by (simp add: any_in_def required_indicators_def str_in_def str_lower_def)

text \<open>
  C6, as the code has it. In a Generic Analyzer output a skill is not required when no
  word of the content (the content split at whitespace) contains the skill as a
  substring, case ignored. Otherwise, with \<open>i\<close> the index of the first such word, the
  skill is required exactly when one of \<open>required\<close>, \<open>must have\<close>, \<open>essential\<close>,
  \<open>mandatory\<close> occurs in the lower-cased window, which is the words from index
  \<open>max(0, i - 50)\<close> up to, not including, index \<open>min(len(words), i + 50)\<close>, joined by
  single blanks. In a parser output a skill is required exactly when the whole lower-cased
  description text contains one of \<open>required\<close>, \<open>must have\<close>, \<open>essential\<close>: no window
  is taken. A skill is not required, whether or not \<open>nice to have\<close> stands near it, when
  no required-indicator occurs in the lower-cased content with every run of whitespace
  read as one blank (Generic Analyzer), or in the lower-cased description text (parser).
\<close>

theorem skill_required_determination:
  "(analyze L S text u t g = Inr r \<longrightarrow>
      (\<forall>s \<in> set (skills r).
         ((\<forall>w \<in> set (str_split text). \<not> str_in (str_lower (name s)) (str_lower w)) \<longrightarrow>
            \<not> is_required s) \<and>
         (\<forall>i. i < length (str_split text) \<and>
               str_in (str_lower (name s)) (str_lower (str_split text ! i)) \<and>
               (\<forall>j<i. \<not> str_in (str_lower (name s)) (str_lower (str_split text ! j))) \<longrightarrow>
               is_required s =
                 any_in [''required'', ''must have'', ''essential'', ''mandatory'']
                   (str_lower (str_join '' '' (map (nth (str_split text))
                      [i - 50 ..< min (length (str_split text)) (i + 50)])))))) \<and>
   (\<forall>s \<in> set (skills (parse L p html u')).
      is_required s =
        any_in [''required'', ''must have'', ''essential''] (description_text L p html)) \<and>
   (analyze L S text u t g = Inr r \<longrightarrow>
      \<not> any_in [''required'', ''must have'', ''essential'', ''mandatory'']
           (str_lower (str_join '' '' (str_split text))) \<longrightarrow>
      (\<forall>s \<in> set (skills r). \<not> is_required s)) \<and>
   (\<not> any_in [''required'', ''must have'', ''essential''] (description_text L p html) \<longrightarrow>
      (\<forall>s \<in> set (skills (parse L p html u')). \<not> is_required s))"
proof -
  have a: "\<forall>s \<in> set (skills r). is_required s = is_skill_required text (name s)"
    if "analyze L S text u t g = Inr r"
    using skills_loop_required analyze_skills [OF that]
    by (auto simp: extract_skills_and_experience_def Let_def split: sum.splits)
  have b: "\<not> is_skill_required text sk"
    if "\<forall>w \<in> set (str_split text). \<not> str_in (str_lower sk) (str_lower w)" for sk
    using context_no_mention [OF that, of 50] no_indicator_in_empty
    by (simp add: is_skill_required_window)
  have c: "is_skill_required text sk =
             any_in [''required'', ''must have'', ''essential'', ''mandatory'']
               (str_lower (str_join '' '' (map (nth (str_split text))
                  [i - 50 ..< min (length (str_split text)) (i + 50)])))"
    if "i < length (str_split text)"
      and "str_in (str_lower sk) (str_lower (str_split text ! i))"
      and "\<forall>j<i. \<not> str_in (str_lower sk) (str_lower (str_split text ! j))" for sk i
    using context_first_mention [OF that, of 50]
    by (simp add: is_skill_required_window required_indicators_def)
  have d: "\<forall>s \<in> set (skills (parse L p html u')).
      is_required s = any_in [''required'', ''must have'', ''essential''] (description_text L p html)"
    using skills_of_text_required [of _ L "description_text L p html"]
    by (auto simp: parse_skills parser_required_words_def split: if_splits)
  have e: "\<not> is_skill_required text sk"
    if "\<not> any_in [''required'', ''must have'', ''essential'', ''mandatory'']
           (str_lower (str_join '' '' (str_split text)))" for sk
    using no_indicator_in_window [of "text" sk] that by (simp add: required_indicators_def)
  show ?thesis
  proof (intro conjI impI ballI allI)
    fix s assume "analyze L S text u t g = Inr r" "s \<in> set (skills r)"
      "\<forall>w \<in> set (str_split text). \<not> str_in (str_lower (name s)) (str_lower w)"
    then show "\<not> is_required s" using a b by blast
  next
    fix s i assume "analyze L S text u t g = Inr r" "s \<in> set (skills r)"
      "i < length (str_split text) \<and>
       str_in (str_lower (name s)) (str_lower (str_split text ! i)) \<and>
       (\<forall>j<i. \<not> str_in (str_lower (name s)) (str_lower (str_split text ! j)))"
    then show "is_required s =
         any_in [''required'', ''must have'', ''essential'', ''mandatory'']
           (str_lower (str_join '' '' (map (nth (str_split text))
              [i - 50 ..< min (length (str_split text)) (i + 50)])))"
      using a c [of i "name s"] by blast
  next
    fix s assume "s \<in> set (skills (parse L p html u'))"
    then show "is_required s =
        any_in [''required'', ''must have'', ''essential''] (description_text L p html)"
      using d by blast
  next
    fix s assume "analyze L S text u t g = Inr r" "s \<in> set (skills r)"
      "\<not> any_in [''required'', ''must have'', ''essential'', ''mandatory'']
           (str_lower (str_join '' '' (str_split text)))"
    then show "\<not> is_required s" using a e by blast
  next
    fix s assume "s \<in> set (skills (parse L p html u'))"
      "\<not> any_in [''required'', ''must have'', ''essential''] (description_text L p html)"
    then show "\<not> is_required s" using d by blast
  qed
qed

lemma analyze_from_pieces:
  assumes "extract_company_name L S c = Inr cn"
    and "extract_skills_and_experience L S c = Inr sk"
    and "extract_keywords S c (1, 2) 15 = Inr kws"
  shows "analyze L S c u None None = Inr (projr (analyze L S c u None None)) \<and>
         skills (projr (analyze L S c u None None)) = sk"
  using assms by (simp add: analyze_def Let_def truthy_def)

lemma example_company_any:
  "extract_company_name (example_libs empty_soup) example_services c = Inr (Some ''Acme Corp'')"
  by code_simp

lemma required_example_skills:
  "extract_skills_and_experience (example_libs empty_soup) example_services ''python is required''
     = Inr [\<lparr>name = ''python'', years_experience = None, is_required = True\<rparr>]"
  by code_simp

lemma required_example_words:
  "str_split ''python is required'' = [''python'', ''is'', ''required''] \<and>
   str_in (str_lower ''python'') (str_lower ''python'')"
  by code_simp

lemma nice_example_skills:
  "extract_skills_and_experience (example_libs empty_soup) example_services ''python is nice to have''
     = Inr [\<lparr>name = ''python'', years_experience = None, is_required = False\<rparr>]"
  by code_simp

lemma nice_example_text:
  "\<not> any_in [''required'', ''must have'', ''essential'', ''mandatory'']
       (str_lower (str_join '' '' (str_split ''python is nice to have''))) \<and>
   str_in ''nice to have'' (str_lower (str_join '' '' (str_split ''python is nice to have'')))"
  by code_simp

lemma example_nice_skills:
  "skills_of_text (example_libs (description_soup ''python is nice to have''))
      (str_lower ''python is nice to have'')
     = [\<lparr>name = ''Python'', years_experience = None, is_required = False\<rparr>]"
  by code_simp

lemma example_nice_no_word:
  "\<not> any_in parser_required_words (str_lower ''python is nice to have'') \<and>
   str_in ''nice to have'' (str_lower ''python is nice to have'')"
  by code_simp

theorem skill_required_determination_witness:
  "analyze (example_libs empty_soup) example_services ''python is required'' None None None
     = Inr (projr (analyze (example_libs empty_soup) example_services
              ''python is required'' None None None)) \<and>
   skills (projr (analyze (example_libs empty_soup) example_services
      ''python is required'' None None None))
     = [\<lparr>name = ''python'', years_experience = None, is_required = True\<rparr>] \<and>
   any_in [''required'', ''must have'', ''essential'', ''mandatory'']
     (str_lower (str_join '' '' (map (nth (str_split ''python is required''))
        [0 - 50 ..< min (length (str_split ''python is required'')) (0 + 50)]))) \<and>
   analyze (example_libs empty_soup) example_services ''python is nice to have'' None None None
     = Inr (projr (analyze (example_libs empty_soup) example_services
              ''python is nice to have'' None None None)) \<and>
   skills (projr (analyze (example_libs empty_soup) example_services
      ''python is nice to have'' None None None)) \<noteq> [] \<and>
   str_in ''nice to have'' (str_lower (str_join '' '' (str_split ''python is nice to have''))) \<and>
   list_all (\<lambda>s. \<not> is_required s)
     (skills (projr (analyze (example_libs empty_soup) example_services
        ''python is nice to have'' None None None))) \<and>
   skills (parse (example_libs (description_soup ''Python and SQL required'')) LinkedInParser
      (description_html ''Python and SQL required'') None) \<noteq> [] \<and>
   list_all is_required
     (skills (parse (example_libs (description_soup ''Python and SQL required'')) LinkedInParser
        (description_html ''Python and SQL required'') None)) \<and>
   str_in ''nice to have''
     (description_text (example_libs (description_soup ''python is nice to have'')) LinkedInParser
        (description_html ''python is nice to have'')) \<and>
   skills (parse (example_libs (description_soup ''python is nice to have'')) LinkedInParser
      (description_html ''python is nice to have'') None) \<noteq> [] \<and>
   list_all (\<lambda>s. \<not> is_required s)
     (skills (parse (example_libs (description_soup ''python is nice to have'')) LinkedInParser
        (description_html ''python is nice to have'') None))"
proof -
  let ?L0 = "example_libs empty_soup"
  let ?A = "''python is required''" and ?B = "''python is nice to have''"
  let ?a = "analyze ?L0 example_services ?A None None None"
  let ?b = "analyze ?L0 example_services ?B None None None"
  let ?sA = "\<lparr>name = ''python'', years_experience = None, is_required = True\<rparr>"
  let ?LR = "example_libs (description_soup ''Python and SQL required'')"
  let ?hR = "description_html ''Python and SQL required''"
  let ?LN = "example_libs (description_soup ''python is nice to have'')"
  let ?hN = "description_html ''python is nice to have''"
  let ?ind = "[''required'', ''must have'', ''essential'', ''mandatory'']"
  note pa = analyze_from_pieces [OF example_company_any required_example_skills example_keywords,
      of None]
  note pb = analyze_from_pieces [OF example_company_any nice_example_skills example_keywords,
      of None]
  have ha: "?a = Inr (projr ?a)" and ska: "skills (projr ?a) = [?sA]" using pa by simp_all
  have hb: "?b = Inr (projr ?b)" and skb: "skills (projr ?b) \<noteq> []" using pb by simp_all
  note tA = skill_required_determination [of ?L0 example_services ?A None None None "projr ?a"
      LinkedInParser ?hR None]
  from tA ha have fa: "\<forall>s \<in> set (skills (projr ?a)).
      \<forall>i. i < length (str_split ?A) \<and>
          str_in (str_lower (name s)) (str_lower (str_split ?A ! i)) \<and>
          (\<forall>j<i. \<not> str_in (str_lower (name s)) (str_lower (str_split ?A ! j))) \<longrightarrow>
          is_required s = any_in ?ind (str_lower (str_join '' '' (map (nth (str_split ?A))
               [i - 50 ..< min (length (str_split ?A)) (i + 50)])))"
    by blast
  have ma: "?sA \<in> set (skills (projr ?a))" using ska by simp
  have ca: "0 < length (str_split ?A) \<and>
          str_in (str_lower (name ?sA)) (str_lower (str_split ?A ! 0)) \<and>
          (\<forall>j<0. \<not> str_in (str_lower (name ?sA)) (str_lower (str_split ?A ! j)))"
    using required_example_words by simp
  from fa ma ca have "is_required ?sA = any_in ?ind (str_lower (str_join '' ''
        (map (nth (str_split ?A)) [0 - 50 ..< min (length (str_split ?A)) (0 + 50)])))"
    by blast
  then have wa: "any_in ?ind (str_lower (str_join '' ''
        (map (nth (str_split ?A)) [0 - 50 ..< min (length (str_split ?A)) (0 + 50)])))"
    by simp
  note tB = skill_required_determination [of ?L0 example_services ?B None None None "projr ?b"
      LinkedInParser ?hR None]
  from tB hb nice_example_text
  have nb: "\<forall>s \<in> set (skills (projr ?b)). \<not> is_required s" by blast
  then have lb: "list_all (\<lambda>s. \<not> is_required s) (skills (projr ?b))"
    by (simp add: list_all_iff)
  have dR: "description_text ?LR LinkedInParser ?hR = str_lower ''Python and SQL required''"
    by (rule example_description_text)
  have neR: "skills (parse ?LR LinkedInParser ?hR None) \<noteq> []"
    unfolding example_parse_skills example_required_skills by simp
  note tR = skill_required_determination [of ?LR example_services ?A None None None "projr ?a"
      LinkedInParser ?hR None]
  from tR dR example_required_word
  have "\<forall>s \<in> set (skills (parse ?LR LinkedInParser ?hR None)). is_required s" by simp
  then have lR: "list_all is_required (skills (parse ?LR LinkedInParser ?hR None))"
    by (simp add: list_all_iff del: parse.simps)
  have dN: "description_text ?LN LinkedInParser ?hN = str_lower ''python is nice to have''"
    by (rule example_description_text)
  have neN: "skills (parse ?LN LinkedInParser ?hN None) \<noteq> []"
    unfolding example_parse_skills example_nice_skills by simp
  note tN = skill_required_determination [of ?LN example_services ?A None None None "projr ?a"
      LinkedInParser ?hN None]
  from tN dN example_nice_no_word
  have "\<forall>s \<in> set (skills (parse ?LN LinkedInParser ?hN None)). \<not> is_required s"
    by (simp add: parser_required_words_def)
  then have lN: "list_all (\<lambda>s. \<not> is_required s) (skills (parse ?LN LinkedInParser ?hN None))"
    by (simp add: list_all_iff del: parse.simps)
  have sN: "str_in ''nice to have'' (description_text ?LN LinkedInParser ?hN)"
    unfolding dN using example_nice_no_word by simp
  from ha ska wa hb skb nice_example_text lb neR lR sN neN lN show ?thesis by blast
qed

subsection \<open>The endpoint: routing and enrichment\<close>

lemma analyze_companyUrl:
  "analyze L S c u t g = Inr r \<Longrightarrow> companyUrl r = None \<and> success r"
  by (auto simp: analyze_def Let_def split: sum.splits)


lemma enrich_events: "set (fst (enrich L S r)) \<subseteq> range Finder_find"
  by (auto simp: enrich_def Let_def)

lemma analyze_job_posting_miss:
  assumes "str_strip (content req) \<noteq> []"
    and "cache_get S (content req) (get_or_empty (url req)) = None"
  shows "analyze_job_posting L S req =
     (case snd (run_extraction L S req) of
        Inl e \<Rightarrow> (fst (run_extraction L S req), Inl e)
      | Inr r \<Rightarrow> (fst (run_extraction L S req) @ fst (enrich L S (backfill req r)),
                  Inr (snd (enrich L S (backfill req r)))))"
  using assms
  by (simp add: analyze_job_posting_def Let_def split_beta split: sum.splits prod.splits)

text \<open>
  C1, as the code has it. A request with blank content is rejected with status 400, and
  a request answered from the cache runs neither a parser nor the analyzer. For any other
  request: if \<open>get_parser\<close> raises, the request fails with status 500 and neither runs;
  if \<open>get_parser\<close> selects a parser and the request carries a non-empty \<open>rawHTML\<close>,
  that parser runs on \<open>rawHTML\<close>, no other parser runs and the analyzer is not called;
  otherwise, that is when no parser is selected or \<open>rawHTML\<close> is absent or empty, the
  analyzer runs over the content and no parser runs.
\<close>

theorem analyze_routing:
  "(str_strip (content req) = [] \<longrightarrow>
      analyze_job_posting L S req = ([], Inl (HTTPException 400 ''Content cannot be empty''))) \<and>
   (str_strip (content req) \<noteq> [] \<longrightarrow>
    cache_get S (content req) (get_or_empty (url req)) = Some c \<longrightarrow>
      fst (analyze_job_posting L S req) = []) \<and>
   (str_strip (content req) \<noteq> [] \<longrightarrow>
    cache_get S (content req) (get_or_empty (url req)) = None \<longrightarrow>
      (get_parser L (url req) = Inl e \<longrightarrow>
         analyze_job_posting L S req = ([], Inl (HTTPException 500 ''Analysis failed''))) \<and>
      (get_parser L (url req) = Inr (Some p) \<and> truthy (rawHTML req) \<longrightarrow>
         Parser_parse p \<in> set (fst (analyze_job_posting L S req)) \<and>
         Analyzer_analyze \<notin> set (fst (analyze_job_posting L S req)) \<and>
         (\<forall>q. Parser_parse q \<in> set (fst (analyze_job_posting L S req)) \<longrightarrow> q = p) \<and>
         snd (analyze_job_posting L S req) =
           Inr (snd (enrich L S (backfill req
                  (parse L p (get_or_empty (rawHTML req)) (url req)))))) \<and>
      (get_parser L (url req) = Inr None \<or>
       get_parser L (url req) = Inr (Some p) \<and> \<not> truthy (rawHTML req) \<longrightarrow>
         Analyzer_analyze \<in> set (fst (analyze_job_posting L S req)) \<and>
         (\<forall>q. Parser_parse q \<notin> set (fst (analyze_job_posting L S req))) \<and>
         snd (analyze_job_posting L S req) =
           (case analyze L S (content req) (url req) None None of
              Inl e \<Rightarrow> Inl e
            | Inr r \<Rightarrow> Inr (snd (enrich L S (backfill req r))))))"
proof -
  have 1: "str_strip (content req) = [] \<longrightarrow>
      analyze_job_posting L S req = ([], Inl (HTTPException 400 ''Content cannot be empty''))"
    by (simp add: analyze_job_posting_def)
  have 2: "fst (analyze_job_posting L S req) = []"
    if "str_strip (content req) \<noteq> []"
      "cache_get S (content req) (get_or_empty (url req)) = Some c"
    using that by (simp add: analyze_job_posting_def split: sum.splits)
  have 3: "(get_parser L (url req) = Inl e \<longrightarrow>
         analyze_job_posting L S req = ([], Inl (HTTPException 500 ''Analysis failed''))) \<and>
      (get_parser L (url req) = Inr (Some p) \<and> truthy (rawHTML req) \<longrightarrow>
         Parser_parse p \<in> set (fst (analyze_job_posting L S req)) \<and>
         Analyzer_analyze \<notin> set (fst (analyze_job_posting L S req)) \<and>
         (\<forall>q. Parser_parse q \<in> set (fst (analyze_job_posting L S req)) \<longrightarrow> q = p) \<and>
         snd (analyze_job_posting L S req) =
           Inr (snd (enrich L S (backfill req
                  (parse L p (get_or_empty (rawHTML req)) (url req)))))) \<and>
      (get_parser L (url req) = Inr None \<or>
       get_parser L (url req) = Inr (Some p) \<and> \<not> truthy (rawHTML req) \<longrightarrow>
         Analyzer_analyze \<in> set (fst (analyze_job_posting L S req)) \<and>
         (\<forall>q. Parser_parse q \<notin> set (fst (analyze_job_posting L S req))) \<and>
         snd (analyze_job_posting L S req) =
           (case analyze L S (content req) (url req) None None of
              Inl e \<Rightarrow> Inl e
            | Inr r \<Rightarrow> Inr (snd (enrich L S (backfill req r)))))"
    if a: "str_strip (content req) \<noteq> []"
      "cache_get S (content req) (get_or_empty (url req)) = None"
    using enrich_events [of L S]
    unfolding analyze_job_posting_miss [OF a]
    by (auto simp: run_extraction_def analysis_failed_def split: sum.splits option.splits)
  from 1 2 3 show ?thesis by blast
qed


lemma example_content: "str_strip ''python lead'' \<noteq> []"
  by code_simp

lemma example_cache_miss: "cache_get example_services c u = None"
  by (simp add: example_services_def)

lemma example_linkedin_url:
  "get_parser (example_libs sp) (Some ''https://www.linkedin.com/jobs/view/1'')
     = Inr (Some LinkedInParser)"
  by code_simp

lemma linkedin_request_fields:
  "content (linkedin_request h) = ''python lead''"
  "url (linkedin_request h) = Some ''https://www.linkedin.com/jobs/view/1''"
  "rawHTML (linkedin_request h) = h"
  "title (linkedin_request h) = None"
  "companyGuess (linkedin_request h) = None"
  by (simp_all add: linkedin_request_def)

theorem analyze_routing_witness:
  "get_parser (example_libs (description_soup ''python is nice to have''))
      (url (linkedin_request (Some (description_html ''python is nice to have''))))
     = Inr (Some LinkedInParser) \<and>
   truthy (rawHTML (linkedin_request (Some (description_html ''python is nice to have'')))) \<and>
   Parser_parse LinkedInParser \<in> set (fst (analyze_job_posting
      (example_libs (description_soup ''python is nice to have'')) example_services
      (linkedin_request (Some (description_html ''python is nice to have''))))) \<and>
   Analyzer_analyze \<notin> set (fst (analyze_job_posting
      (example_libs (description_soup ''python is nice to have'')) example_services
      (linkedin_request (Some (description_html ''python is nice to have'')))))"
proof -
  let ?L = "example_libs (description_soup ''python is nice to have'')"
  let ?req = "linkedin_request (Some (description_html ''python is nice to have''))"
  have c: "str_strip (content ?req) \<noteq> []"
    unfolding linkedin_request_fields by (rule example_content)
  have m: "cache_get example_services (content ?req) (get_or_empty (url ?req)) = None"
    by (rule example_cache_miss)
  have g: "get_parser ?L (url ?req) = Inr (Some LinkedInParser)"
    unfolding linkedin_request_fields by (rule example_linkedin_url)
  have h: "truthy (rawHTML ?req)"
    unfolding linkedin_request_fields by (simp add: truthy_def description_html_def)
  from analyze_routing [of ?req ?L example_services _ _ LinkedInParser] c m g h
  show ?thesis by blast
qed

text \<open>
  The claim C1 as stated fails for a request whose URL selects the LinkedIn parser and
  which carries no \<open>rawHTML\<close>: the analyzer is called (then the career page finder), and
  no parser is.
\<close>

theorem parser_selected_analyzer_runs:
  "get_parser (example_libs empty_soup) (url (linkedin_request None)) = Inr (Some LinkedInParser) \<and>
   fst (analyze_job_posting (example_libs empty_soup) example_services (linkedin_request None))
     = [Analyzer_analyze, Finder_find ''Acme Corp'']"
proof -
  let ?L = "example_libs empty_soup" and ?req = "linkedin_request None"
  let ?u = "Some ''https://www.linkedin.com/jobs/view/1''"
  let ?a = "analyze ?L example_services ''python lead'' ?u None None"
  have c: "str_strip (content ?req) \<noteq> []"
    unfolding linkedin_request_fields by (rule example_content)
  have m: "cache_get example_services (content ?req) (get_or_empty (url ?req)) = None"
    by (rule example_cache_miss)
  have g: "get_parser ?L (url ?req) = Inr (Some LinkedInParser)"
    unfolding linkedin_request_fields by (rule example_linkedin_url)
  have x: "run_extraction ?L example_services ?req = ([Analyzer_analyze], ?a)"
    unfolding run_extraction_def g by (simp add: linkedin_request_fields truthy_def)
  note e = analyze_example [of ?u]
  from e obtain r where r: "?a = Inr r" by (cases ?a) auto
  from e have cn: "company_name r = Some ''Acme Corp''"
    and jt: "job_title r = Some ''python lead''" unfolding r by simp_all
  have u: "companyUrl r = None" using analyze_companyUrl [OF r] by simp
  have b: "backfill ?req r = r"
    by (simp add: backfill_def jt cn truthy_def)
  have f: "fst (enrich ?L example_services r) = [Finder_find ''Acme Corp'']"
    by (simp add: enrich_def u cn truthy_def get_or_empty_def Let_def)
  have "fst (analyze_job_posting ?L example_services ?req)
          = [Analyzer_analyze, Finder_find ''Acme Corp'']"
    unfolding analyze_job_posting_miss [OF c m] x by (simp add: r b f)
  with g show ?thesis by blast
qed















subsection \<open>The career-page scorer\<close>

lemma sublist_str_lower:
  assumes "sublist h u" and "str_in b (str_lower h)"
  shows "str_in b (str_lower u)"
proof -
  from assms(1) obtain ps ss where "u = ps @ h @ ss" by (auto simp: sublist_def)
  hence "str_lower u = str_lower ps @ str_lower h @ str_lower ss" by (simp add: str_lower_def)
  hence "sublist (str_lower h) (str_lower u)" by (auto simp: sublist_def)
  with assms(2) show ?thesis unfolding str_in_def by (rule sublist_order.order_trans)
qed

lemma any_in_part:
  assumes "sublist h u" and "any_in ws (str_lower h)"
  shows "any_in ws (str_lower u)"
  using assms sublist_str_lower by (auto simp: any_in_def list_ex_iff)

lemma py_int_points:
  "py_int (50 * (12 / 10)) = 60" "py_int (75 * (12 / 10)) = 90"
  "py_int (40 * (12 / 10)) = 48" "py_int (60 * (12 / 10)) = 72"
  "py_int (50 * 1) = 50" "py_int (75 * 1) = 75" "py_int (40 * 1) = 40" "py_int (60 * 1) = 60"
  by (simp_all add: py_int_def)

lemma has_career_keyword:
  "list_ex (\<lambda>keyword. str_in keyword a \<or> str_in keyword b) career_keywords
   = (any_in career_keywords a \<or> any_in career_keywords b)"
  by (auto simp: any_in_def list_ex_iff)

lemma score_career_url_points:
  assumes "u \<noteq> []" and "\<not> any_in job_boards (str_lower u)"
    and "any_in career_keywords (str_lower u) \<or> any_in career_keywords (str_lower t)"
  shows "score_career_url L u t sn c tg =
     (if any_in [''career'', ''jobs'', ''hiring''] (str_lower u) then if tg then 60 else 50 else 0) +
     (if str_in (str_lower (clean_company_name L c)) (str_lower t) then if tg then 90 else 75 else 0) +
     (if any_in career_patterns (str_lower u) then if tg then 48 else 40 else 0) +
     (if any_in official_indicators (str_lower t) then if tg then 72 else 60 else 0) +
     (if tg then 30 else 0)"
  using assms by (simp add: score_career_url_def Let_def has_career_keyword py_int_def)

lemma max_by_score_mem: "max_by_score b xs \<in> set (b # xs)"
  by (induction xs arbitrary: b) auto

lemma max_by_score_ge: "x \<in> set (b # xs) \<Longrightarrow> score x \<le> score (max_by_score b xs)"
proof (induction xs arbitrary: b x)
  case Nil thus ?case by simp
next
  case (Cons y ys)
  let ?b = "if score b < score y then y else b"
  have "score b \<le> score (max_by_score ?b ys)" "score y \<le> score (max_by_score ?b ys)"
    using Cons.IH [of ?b ?b] by (auto split: if_splits)
  moreover have "x \<in> set ys \<Longrightarrow> score x \<le> score (max_by_score ?b ys)"
    using Cons.IH [of x ?b] by simp
  ultimately show ?case using Cons.prems by auto
qed

lemma max_by_score_keep:
  "\<forall>x\<in>set xs. score x \<le> score b \<Longrightarrow> max_by_score b xs = b"
  by (induction xs arbitrary: b) auto

lemma max_by_score_first:
  assumes "score b < score r" and "\<forall>x\<in>set xs. score x < score r"
    and "\<forall>y\<in>set ys. score y \<le> score r"
  shows "max_by_score b (xs @ r # ys) = r"
  using assms
proof (induction xs arbitrary: b)
  case Nil thus ?case by (simp add: max_by_score_keep)
next
  case (Cons x xs) thus ?case by simp
qed

lemma find_best_first:
  assumes rs: "rs = pre @ r # post"
    and pre: "\<forall>x\<in>set pre. score (score_item L c tg x) < score (score_item L c tg r)"
    and post: "\<forall>x\<in>set post. score (score_item L c tg x) \<le> score (score_item L c tg r)"
    and thr: "(if tg then 30 else 50) \<le> score (score_item L c tg r)"
  shows "find_best_career_url L rs c tg = Some (score_item L c tg r)"
proof -
  let ?f = "score_item L c tg"
  let ?P = "\<lambda>x. score x > 0"
  let ?xs = "filter ?P (map ?f pre)" and ?ys = "filter ?P (map ?f post)"
  have pos: "?P (?f r)" using thr by (simp split: if_splits)
  have sr: "filter ?P (map ?f rs) = ?xs @ ?f r # ?ys" using rs pos by simp
  have xs: "\<forall>x\<in>set ?xs. score x < score (?f r)" using pre by auto
  have ys: "\<forall>y\<in>set ?ys. score y \<le> score (?f r)" using post by auto
  show ?thesis
  proof (cases ?xs)
    case Nil
    thus ?thesis using sr ys thr
      by (simp add: find_best_career_url_def Let_def max_by_score_keep del: filter.simps filter_map)
  next
    case (Cons x xs')
    have "score x < score (?f r)" "\<forall>x\<in>set xs'. score x < score (?f r)" using xs Cons by auto
    hence "max_by_score x (xs' @ ?f r # ?ys) = ?f r" using ys by (rule max_by_score_first)
    thus ?thesis using sr Cons thr
      by (simp add: find_best_career_url_def Let_def del: filter.simps filter_map)
  qed
qed

lemma find_best_None:
  "find_best_career_url L rs c tg = None \<longleftrightarrow>
   (\<forall>r\<in>set rs. score (score_item L c tg r) < (if tg then 30 else 50))"
proof -
  let ?f = "score_item L c tg"
  let ?P = "\<lambda>x. score x > 0"
  let ?t = "if tg then 30 else 50 :: int"
  let ?sr = "filter ?P (map ?f rs)"
  show ?thesis
  proof (cases ?sr)
    case Nil
    hence "\<forall>r\<in>set rs. \<not> ?P (?f r)" by (auto simp: filter_empty_conv)
    hence "\<forall>r\<in>set rs. score (?f r) < ?t" by (cases tg) auto
    thus ?thesis using Nil by (simp add: find_best_career_url_def Let_def del: filter.simps filter_map)
  next
    case (Cons x xs)
    let ?b = "max_by_score x xs"
    have fb: "find_best_career_url L rs c tg = (if ?t \<le> score ?b then Some ?b else None)"
      using Cons by (simp add: find_best_career_url_def Let_def del: filter.simps filter_map)
    have mem: "?b \<in> set ?sr" using max_by_score_mem [of x xs] Cons by simp
    show ?thesis
    proof
      assume "find_best_career_url L rs c tg = None"
      hence lt: "score ?b < ?t" using fb by (simp split: if_splits)
      show "\<forall>r\<in>set rs. score (?f r) < ?t"
      proof
        fix r assume r: "r \<in> set rs"
        show "score (?f r) < ?t"
        proof (cases "?P (?f r)")
          case True
          hence "?f r \<in> set (x # xs)" using r Cons [symmetric] by simp
          hence "score (?f r) \<le> score ?b" by (rule max_by_score_ge)
          thus ?thesis using lt by simp
        next
          case False thus ?thesis by (cases tg) auto
        qed
      qed
    next
      assume a: "\<forall>r\<in>set rs. score (?f r) < ?t"
      from mem obtain r where "r \<in> set rs" "?b = ?f r" by auto
      hence "score ?b < ?t" using a by simp
      thus "find_best_career_url L rs c tg = None" using fb by simp
    qed
  qed
qed

lemma example_clean_company: "str_lower (clean_company_name (example_libs sp) ''Acme'') = ''acme''"
proof -
  have "clean_company_name (example_libs sp) ''Acme'' = str_strip ''Acme''"
    by (simp add: clean_company_name_def example_libs_def suffixes_def)
  moreover have "str_lower (str_strip ''Acme'') = ''acme''" by code_simp
  ultimately show ?thesis by simp
qed

lemma linkedin_listing_board:
  "sublist ''www.linkedin.com'' ''https://www.linkedin.com/jobs/careers-at-acme''"
  "any_in job_boards (str_lower ''www.linkedin.com'')"
  "any_in job_boards (str_lower ''https://www.linkedin.com/jobs/careers-at-acme'')"
  "any_in career_keywords (str_lower ''https://www.linkedin.com/jobs/careers-at-acme'')"
  by code_simp+

lemma acme_careers_facts:
  "\<not> any_in job_boards (str_lower ''https://www.acme.com/careers'')"
  "any_in career_keywords (str_lower ''https://www.acme.com/careers'')"
  "any_in [''career'', ''jobs'', ''hiring''] (str_lower ''https://www.acme.com/careers'')"
  "str_in ''acme'' (str_lower ''Careers at Acme'')"
  "any_in career_patterns (str_lower ''https://www.acme.com/careers'')"
  "any_in official_indicators (str_lower ''Careers at Acme'')"
  by code_simp+

lemma acme_jobs_facts:
  "\<not> any_in job_boards (str_lower ''https://www.acme.com/jobs'')"
  "any_in career_keywords (str_lower ''https://www.acme.com/jobs'')"
  "any_in [''career'', ''jobs'', ''hiring''] (str_lower ''https://www.acme.com/jobs'')"
  "str_in ''acme'' (str_lower ''Jobs at Acme'')"
  "any_in career_patterns (str_lower ''https://www.acme.com/jobs'')"
  "any_in official_indicators (str_lower ''Jobs at Acme'')"
  by code_simp+

lemma acme_about_facts:
  "\<not> any_in job_boards (str_lower ''https://www.acme.com/about'')"
  "\<not> any_in career_keywords (str_lower ''https://www.acme.com/about'')"
  "\<not> any_in career_keywords (str_lower ''About Acme'')"
  by code_simp+

lemma example_item_scores:
  "score (score_item (example_libs sp) ''Acme'' tg linkedin_listing) = 0"
  "score (score_item (example_libs sp) ''Acme'' tg acme_about) = 0"
  "score (score_item (example_libs sp) ''Acme'' tg acme_careers) = (if tg then 300 else 225)"
  "score (score_item (example_libs sp) ''Acme'' tg acme_jobs) = (if tg then 300 else 225)"
proof -
  show "score (score_item (example_libs sp) ''Acme'' tg linkedin_listing) = 0"
    by (simp add: score_item_def linkedin_listing_def get_or_empty_def score_career_url_def
        linkedin_listing_board Let_def)
  show "score (score_item (example_libs sp) ''Acme'' tg acme_about) = 0"
    by (simp add: score_item_def acme_about_def get_or_empty_def score_career_url_def
        acme_about_facts has_career_keyword Let_def)
  show "score (score_item (example_libs sp) ''Acme'' tg acme_careers) = (if tg then 300 else 225)"
    using score_career_url_points [of "''https://www.acme.com/careers''" "''Careers at Acme''"
        "example_libs sp" "[]" "''Acme''" tg]
    by (simp add: score_item_def acme_careers_def get_or_empty_def acme_careers_facts
        example_clean_company)
  show "score (score_item (example_libs sp) ''Acme'' tg acme_jobs) = (if tg then 300 else 225)"
    using score_career_url_points [of "''https://www.acme.com/jobs''" "''Jobs at Acme''"
        "example_libs sp" "[]" "''Acme''" tg]
    by (simp add: score_item_def acme_jobs_def get_or_empty_def acme_jobs_facts
        example_clean_company)
qed

text \<open>
  C7, as the code has it. \<open>score_career_url\<close> returns 0 for the empty URL, and for a URL
  that, in lower case, contains a name of the job-board list anywhere: in its host, its
  path or its query. So it returns 0 whenever a part \<open>h\<close> of the URL, such as the host as
  it is written there, contains such a name. It returns 0 when neither the URL nor the
  title contains a career keyword. In every other case the score is the sum of the points
  of the four tests, 50, 75, 40 and 60 in broad mode and \<open>int\<close> of 1.2 times that in
  targeted mode (60, 90, 48 and 72), plus 30 in targeted mode.

  \<open>find_best_career_url\<close> scores every result by \<open>score_item\<close>, and returns the first of
  the results with the highest score, provided that score is at least 30 in targeted
  mode and 50 in broad mode; it returns nothing exactly when every result scores below
  that threshold.
\<close>

theorem career_url_scoring:
  "(u = [] \<longrightarrow> score_career_url L u t sn c tg = 0) \<and>
   (any_in job_boards (str_lower u) \<longrightarrow> score_career_url L u t sn c tg = 0) \<and>
   (sublist h u \<and> any_in job_boards (str_lower h) \<longrightarrow> score_career_url L u t sn c tg = 0) \<and>
   (\<not> any_in career_keywords (str_lower u) \<and> \<not> any_in career_keywords (str_lower t) \<longrightarrow>
      score_career_url L u t sn c tg = 0) \<and>
   (u \<noteq> [] \<and> \<not> any_in job_boards (str_lower u) \<and>
    (any_in career_keywords (str_lower u) \<or> any_in career_keywords (str_lower t)) \<longrightarrow>
      score_career_url L u t sn c tg =
        (if any_in [''career'', ''jobs'', ''hiring''] (str_lower u)
         then if tg then 60 else 50 else 0) +
        (if str_in (str_lower (clean_company_name L c)) (str_lower t)
         then if tg then 90 else 75 else 0) +
        (if any_in career_patterns (str_lower u) then if tg then 48 else 40 else 0) +
        (if any_in official_indicators (str_lower t) then if tg then 72 else 60 else 0) +
        (if tg then 30 else 0)) \<and>
   (rs = pre @ r # post \<and>
    (\<forall>x\<in>set pre. score (score_item L c tg x) < score (score_item L c tg r)) \<and>
    (\<forall>x\<in>set post. score (score_item L c tg x) \<le> score (score_item L c tg r)) \<and>
    (if tg then 30 else 50) \<le> score (score_item L c tg r) \<longrightarrow>
      find_best_career_url L rs c tg =
        Some \<lparr>score = score_career_url L (get_or_empty (link r)) (get_or_empty (item_title r))
                         (get_or_empty (snippet r)) c tg,
              scored_url = get_or_empty (link r),
              scored_title = get_or_empty (item_title r)\<rparr>) \<and>
   (find_best_career_url L rs c tg = None \<longleftrightarrow>
      (\<forall>x\<in>set rs. score (score_item L c tg x) < (if tg then 30 else 50)))"
proof -
  have 1: "u = [] \<longrightarrow> score_career_url L u t sn c tg = 0"
    by (simp add: score_career_url_def)
  have 2: "any_in job_boards (str_lower u) \<longrightarrow> score_career_url L u t sn c tg = 0"
    by (simp add: score_career_url_def Let_def)
  have 3: "sublist h u \<and> any_in job_boards (str_lower h) \<longrightarrow> score_career_url L u t sn c tg = 0"
    using 2 any_in_part [of h u job_boards] by blast
  have 4: "\<not> any_in career_keywords (str_lower u) \<and> \<not> any_in career_keywords (str_lower t) \<longrightarrow>
      score_career_url L u t sn c tg = 0"
    by (simp add: score_career_url_def Let_def has_career_keyword)
  note 5 = score_career_url_points [of u t L sn c tg]
  have 6: "rs = pre @ r # post \<and>
    (\<forall>x\<in>set pre. score (score_item L c tg x) < score (score_item L c tg r)) \<and>
    (\<forall>x\<in>set post. score (score_item L c tg x) \<le> score (score_item L c tg r)) \<and>
    (if tg then 30 else 50) \<le> score (score_item L c tg r) \<longrightarrow>
      find_best_career_url L rs c tg =
        Some \<lparr>score = score_career_url L (get_or_empty (link r)) (get_or_empty (item_title r))
                         (get_or_empty (snippet r)) c tg,
              scored_url = get_or_empty (link r),
              scored_title = get_or_empty (item_title r)\<rparr>"
  proof
    assume a: "rs = pre @ r # post \<and>
      (\<forall>x\<in>set pre. score (score_item L c tg x) < score (score_item L c tg r)) \<and>
      (\<forall>x\<in>set post. score (score_item L c tg x) \<le> score (score_item L c tg r)) \<and>
      (if tg then 30 else 50) \<le> score (score_item L c tg r)"
    hence "find_best_career_url L rs c tg = Some (score_item L c tg r)"
      using find_best_first [of rs pre r post L c tg] by blast
    thus "find_best_career_url L rs c tg =
        Some \<lparr>score = score_career_url L (get_or_empty (link r)) (get_or_empty (item_title r))
                         (get_or_empty (snippet r)) c tg,
              scored_url = get_or_empty (link r),
              scored_title = get_or_empty (item_title r)\<rparr>"
      by (simp add: score_item_def Let_def)
  qed
  note 7 = find_best_None [of L rs c tg]
  show ?thesis using 1 2 3 4 5 6 7 by blast
qed

theorem career_url_scoring_witness:
  "score_career_url (example_libs empty_soup) [] ''Careers at Acme'' [] ''Acme'' False = 0 \<and>
   sublist ''www.linkedin.com'' ''https://www.linkedin.com/jobs/careers-at-acme'' \<and>
   any_in job_boards (str_lower ''www.linkedin.com'') \<and>
   any_in career_keywords (str_lower ''https://www.linkedin.com/jobs/careers-at-acme'') \<and>
   score_career_url (example_libs empty_soup) ''https://www.linkedin.com/jobs/careers-at-acme''
     ''Careers at Acme'' [] ''Acme'' False = 0 \<and>
   score_career_url (example_libs empty_soup) ''https://www.linkedin.com/jobs/careers-at-acme''
     ''Careers at Acme'' [] ''Acme'' True = 0 \<and>
   score_career_url (example_libs empty_soup) ''https://www.acme.com/about''
     ''About Acme'' [] ''Acme'' True = 0 \<and>
   score_career_url (example_libs empty_soup) ''https://www.acme.com/careers''
     ''Careers at Acme'' [] ''Acme'' False = 50 + 75 + 40 + 60 \<and>
   score_career_url (example_libs empty_soup) ''https://www.acme.com/careers''
     ''Careers at Acme'' [] ''Acme'' True = 60 + 90 + 48 + 72 + 30 \<and>
   score_career_url (example_libs empty_soup) ''https://www.acme.com/jobs''
     ''Jobs at Acme'' [] ''Acme'' False = 225 \<and>
   find_best_career_url (example_libs empty_soup) [linkedin_listing, acme_careers, acme_jobs]
     ''Acme'' False =
     Some \<lparr>score = 225, scored_url = ''https://www.acme.com/careers'',
           scored_title = ''Careers at Acme''\<rparr> \<and>
   find_best_career_url (example_libs empty_soup) [acme_jobs, linkedin_listing, acme_careers]
     ''Acme'' True =
     Some \<lparr>score = 300, scored_url = ''https://www.acme.com/jobs'',
           scored_title = ''Jobs at Acme''\<rparr> \<and>
   find_best_career_url (example_libs empty_soup) [linkedin_listing, acme_about] ''Acme'' True
     = None"
proof -
  let ?L = "example_libs empty_soup"
  let ?li = "''https://www.linkedin.com/jobs/careers-at-acme''"
  note b = linkedin_listing_board
  note s = example_item_scores [of empty_soup]
  note c = example_clean_company [of empty_soup]
  have e: "score_career_url ?L [] ''Careers at Acme'' [] ''Acme'' False = 0"
    using career_url_scoring [of "[]" ?L "''Careers at Acme''" "[]" "''Acme''" False] by simp
  have l1: "score_career_url ?L ?li ''Careers at Acme'' [] ''Acme'' False = 0"
    using career_url_scoring [of ?li ?L "''Careers at Acme''" "[]" "''Acme''" False
        "''www.linkedin.com''"] b by blast
  have l2: "score_career_url ?L ?li ''Careers at Acme'' [] ''Acme'' True = 0"
    using career_url_scoring [of ?li ?L "''Careers at Acme''" "[]" "''Acme''" True
        "''www.linkedin.com''"] b by blast
  have a: "score_career_url ?L ''https://www.acme.com/about'' ''About Acme'' [] ''Acme'' True = 0"
    using career_url_scoring [of "''https://www.acme.com/about''" ?L "''About Acme''" "[]"
        "''Acme''" True] acme_about_facts by blast
  have c1: "score_career_url ?L ''https://www.acme.com/careers'' ''Careers at Acme'' [] ''Acme''
              False = 50 + 75 + 40 + 60"
    using career_url_scoring [of "''https://www.acme.com/careers''" ?L "''Careers at Acme''" "[]"
        "''Acme''" False] acme_careers_facts c by simp
  have c2: "score_career_url ?L ''https://www.acme.com/careers'' ''Careers at Acme'' [] ''Acme''
              True = 60 + 90 + 48 + 72 + 30"
    using career_url_scoring [of "''https://www.acme.com/careers''" ?L "''Careers at Acme''" "[]"
        "''Acme''" True] acme_careers_facts c by simp
  have j: "score_career_url ?L ''https://www.acme.com/jobs'' ''Jobs at Acme'' [] ''Acme''
              False = 225"
    using career_url_scoring [of "''https://www.acme.com/jobs''" ?L "''Jobs at Acme''" "[]"
        "''Acme''" False] acme_jobs_facts c by simp
  have "find_best_career_url ?L [linkedin_listing, acme_careers, acme_jobs] ''Acme'' False =
     Some \<lparr>score = score_career_url ?L (get_or_empty (link acme_careers))
                      (get_or_empty (item_title acme_careers))
                      (get_or_empty (snippet acme_careers)) ''Acme'' False,
           scored_url = get_or_empty (link acme_careers),
           scored_title = get_or_empty (item_title acme_careers)\<rparr>"
    using career_url_scoring [of "[]" ?L "[]" "[]" "''Acme''" False "[]"
        "[linkedin_listing, acme_careers, acme_jobs]" "[linkedin_listing]" acme_careers
        "[acme_jobs]"] s
    by simp
  hence f1: "find_best_career_url ?L [linkedin_listing, acme_careers, acme_jobs] ''Acme'' False =
     Some \<lparr>score = 225, scored_url = ''https://www.acme.com/careers'',
           scored_title = ''Careers at Acme''\<rparr>"
    using c1 by (simp add: acme_careers_def get_or_empty_def)
  have "find_best_career_url ?L [acme_jobs, linkedin_listing, acme_careers] ''Acme'' True =
     Some \<lparr>score = score_career_url ?L (get_or_empty (link acme_jobs))
                      (get_or_empty (item_title acme_jobs))
                      (get_or_empty (snippet acme_jobs)) ''Acme'' True,
           scored_url = get_or_empty (link acme_jobs),
           scored_title = get_or_empty (item_title acme_jobs)\<rparr>"
    using career_url_scoring [of "[]" ?L "[]" "[]" "''Acme''" True "[]"
        "[acme_jobs, linkedin_listing, acme_careers]" "[]" acme_jobs
        "[linkedin_listing, acme_careers]"] s
    by simp
  hence f2: "find_best_career_url ?L [acme_jobs, linkedin_listing, acme_careers] ''Acme'' True =
     Some \<lparr>score = 300, scored_url = ''https://www.acme.com/jobs'',
           scored_title = ''Jobs at Acme''\<rparr>"
    using s(4) [of True] by (simp add: score_item_def acme_jobs_def get_or_empty_def Let_def)
  have f3: "find_best_career_url ?L [linkedin_listing, acme_about] ''Acme'' True = None"
    using career_url_scoring [of "[]" ?L "[]" "[]" "''Acme''" True "[]"
        "[linkedin_listing, acme_about]"] s
    by simp
  show ?thesis using e b l1 l2 a c1 c2 j f1 f2 f3 by simp
qed

text \<open>
  The score is 0 for a URL on the company's own host, with a career keyword, that names a
  job board in its query, and for a result without a URL whose title has a career keyword,
  the company name and an official phrase: the list is looked up in the whole URL, and the
  empty URL is rejected first.
\<close>

theorem job_board_outside_host:
  "url_netloc ''https://acme.com/careers?src=linkedin.com'' = Inr ''acme.com'' \<and>
   url_hostname ''acme.com'' = ''acme.com'' \<and>
   \<not> any_in job_boards ''acme.com'' \<and>
   any_in career_keywords (str_lower ''https://acme.com/careers?src=linkedin.com'') \<and>
   score_career_url (example_libs empty_soup) ''https://acme.com/careers?src=linkedin.com''
     ''Careers at Acme'' [] ''Acme'' False = 0 \<and>
   any_in career_keywords (str_lower ''Careers at Acme'') \<and>
   score_career_url (example_libs empty_soup) [] ''Careers at Acme'' [] ''Acme'' False = 0"
proof -
  let ?u = "''https://acme.com/careers?src=linkedin.com''"
  have 1: "url_netloc ?u = Inr ''acme.com''" by code_simp
  have 2: "url_hostname ''acme.com'' = ''acme.com''" by code_simp
  have 3: "\<not> any_in job_boards ''acme.com''" by code_simp
  have 4: "any_in career_keywords (str_lower ?u)" by code_simp
  have b: "any_in job_boards (str_lower ?u)" by code_simp
  have 5: "score_career_url (example_libs empty_soup) ?u ''Careers at Acme'' [] ''Acme'' False = 0"
    using b by (simp add: score_career_url_def Let_def)
  have 6: "any_in career_keywords (str_lower ''Careers at Acme'')" by code_simp
  have 7: "score_career_url (example_libs empty_soup) [] ''Careers at Acme'' [] ''Acme'' False = 0"
    by (simp add: score_career_url_def)
  show ?thesis using 1 2 3 4 5 6 7 by blast
qed

end
